theory Spec2Isabelle
  imports Main "HOL-Library.Word" "HOL-Library.AList"
begin

section \<open>JavaScript strings\<close>

text \<open>
  A JavaScript string is a sequence of 16-bit code units; \<open>===\<close> on strings compares
  the sequences, and a string is falsy exactly when it is empty. String literals of the
  source are written through \<open>js\<close>, which maps each character of an Isabelle literal to the
  code unit of the same number; the accented letters of the Spanish messages are given by
  their code units.
\<close>

type_synonym code_unit = "16 word"
type_synonym jsstring = "code_unit list"

definition js :: "string \<Rightarrow> jsstring" where
  "js s = map (\<lambda>c. word_of_nat (of_char c)) s"

text \<open>\<open>String.prototype.startsWith\<close>: the receiver begins with the search string.\<close>

definition startsWith :: "jsstring \<Rightarrow> jsstring \<Rightarrow> bool" where
  "startsWith s p = (take (length p) s = p)"

text \<open>
  White space as the regular expression class \<open>\s\<close> and \<open>String.prototype.trim\<close> see it:
  tab, line feed, vertical tab, form feed, carriage return, space, no-break space, the
  Unicode space separators, the line and paragraph separators and the byte order mark.
\<close>

definition isWhiteSpace :: "code_unit \<Rightarrow> bool" where
  "isWhiteSpace c =
     (c = 0x09 \<or> c = 0x0A \<or> c = 0x0B \<or> c = 0x0C \<or> c = 0x0D \<or> c = 0x20 \<or> c = 0xA0 \<or>
      c = 0x1680 \<or> (0x2000 \<le> c \<and> c \<le> 0x200A) \<or> c = 0x2028 \<or> c = 0x2029 \<or>
      c = 0x202F \<or> c = 0x205F \<or> c = 0x3000 \<or> c = 0xFEFF)"

definition trim :: "jsstring \<Rightarrow> jsstring" where
  "trim s = rev (dropWhile isWhiteSpace (rev (dropWhile isWhiteSpace s)))"

text \<open>
  \<open>Number.prototype.toString\<close> in base ten, as a template literal applies it to an
  integral number.
\<close>

fun digits :: "nat \<Rightarrow> jsstring" where
  "digits n = (if n < 10 then [word_of_nat (48 + n)]
               else digits (n div 10) @ [word_of_nat (48 + n mod 10)])"

declare digits.simps [simp del]

definition Number_toString :: "int \<Rightarrow> jsstring" where
  "Number_toString i = (if i < 0 then js ''-'' @ digits (nat (- i)) else digits (nat i))"

section \<open>Interfaces: \<open>interfaces/AuthService.ts\<close>\<close>

record User =
  user_id :: jsstring
  user_email :: jsstring
  user_name :: jsstring

text \<open>
  \<open>AuthResult\<close> is a union discriminated by \<open>success\<close>: \<open>AuthSuccess user token\<close> is
  \<open>{success: true, user, token}\<close> and \<open>AuthFailure error\<close> is \<open>{success: false, error}\<close>.
\<close>

datatype AuthResult = AuthSuccess User jsstring | AuthFailure jsstring

section \<open>\<open>services/AuthServiceImpl.ts\<close>\<close>

record ValidUser =
  vu_email :: jsstring
  vu_password :: jsstring
  vu_user :: User

definition validUsers :: "ValidUser list" where
  "validUsers =
     [\<lparr>vu_email = js ''test@test.com'', vu_password = js ''123456'',
       vu_user = \<lparr>user_id = js ''1'', user_email = js ''test@test.com'',
                  user_name = js ''Usuario Test''\<rparr>\<rparr>,
      \<lparr>vu_email = js ''admin@test.com'', vu_password = js ''admin123'',
       vu_user = \<lparr>user_id = js ''2'', user_email = js ''admin@test.com'',
                  user_name = js ''Administrador''\<rparr>\<rparr>]"

text \<open>The only mutable state of the service is the set of tokens it holds valid.\<close>

record AuthServiceImpl =
  validTokens :: "jsstring set"

definition new_AuthServiceImpl :: AuthServiceImpl where
  "new_AuthServiceImpl = \<lparr>validTokens = {}\<rparr>"

text \<open>\<open>Array.prototype.find\<close> with the predicate of \<open>findValidUser\<close>: the first match.\<close>

definition findValidUser :: "jsstring \<Rightarrow> jsstring \<Rightarrow> ValidUser option" where
  "findValidUser email password =
     List.find (\<lambda>u. vu_email u = email \<and> vu_password u = password) validUsers"

text \<open>
  \<open>generateToken\<close> reads the clock and the random source. The model takes both readings
  as arguments: \<open>timestamp\<close> is \<open>Date.now()\<close> and \<open>random\<close> is
  \<open>Math.random().toString(36).substring(2)\<close>.
\<close>

definition generateToken :: "jsstring \<Rightarrow> int \<Rightarrow> jsstring \<Rightarrow> jsstring" where
  "generateToken userId timestamp random =
     js ''token_'' @ userId @ js ''_'' @ Number_toString timestamp @ js ''_'' @ random"

definition msg_required :: jsstring where
  "msg_required = js ''Email y contrase'' @ [0xF1] @ js ''a son requeridos''"

definition msg_invalid_credentials :: jsstring where
  "msg_invalid_credentials = js ''Credenciales inv'' @ [0xE1] @ js ''lidas''"

text \<open>
  \<open>authenticate\<close>: the awaited network delay changes no state, so the call is one
  transition of the service. It returns the result and the service afterwards.
\<close>

definition AuthServiceImpl_authenticate ::
  "AuthServiceImpl \<Rightarrow> jsstring \<Rightarrow> jsstring \<Rightarrow> int \<Rightarrow> jsstring \<Rightarrow> AuthResult \<times> AuthServiceImpl" where
  "AuthServiceImpl_authenticate this email password timestamp random =
     (if email = [] \<or> password = [] then (AuthFailure msg_required, this)
      else case findValidUser email password of
             None \<Rightarrow> (AuthFailure msg_invalid_credentials, this)
           | Some validUser \<Rightarrow>
               (let token = generateToken (user_id (vu_user validUser)) timestamp random
                in (AuthSuccess (vu_user validUser) token,
                    this\<lparr>validTokens := insert token (validTokens this)\<rparr>)))"

definition AuthServiceImpl_validateToken :: "AuthServiceImpl \<Rightarrow> jsstring \<Rightarrow> bool" where
  "AuthServiceImpl_validateToken this token = (token \<in> validTokens this)"

definition AuthServiceImpl_refreshToken ::
  "AuthServiceImpl \<Rightarrow> jsstring \<Rightarrow> int \<Rightarrow> jsstring \<Rightarrow> jsstring option \<times> AuthServiceImpl" where
  "AuthServiceImpl_refreshToken this token timestamp random =
     (if token \<notin> validTokens this then (None, this)
      else (let deleted = validTokens this - {token};
                newToken = generateToken (js ''refreshed'') timestamp random
            in (Some newToken, this\<lparr>validTokens := insert newToken deleted\<rparr>)))"

section \<open>Thrown values\<close>

text \<open>
  What a \<open>throw\<close> carries, as far as the handlers of this code look at it: an instance of
  \<open>Error\<close> with its \<open>message\<close>, or any other value. A call that may throw returns
  \<open>thrown + 'r\<close>, with \<open>Inl\<close> for the exception.
\<close>

datatype thrown = ErrorObject jsstring | OtherValue

section \<open>\<open>services/StorageServiceImpl.ts\<close>\<close>

subsection \<open>The platform: \<open>JSON\<close> and \<open>localStorage\<close>\<close>

text \<open>
  \<open>JSON.stringify\<close> and \<open>JSON.parse\<close> belong to the platform and are parameters of the
  model, for the type \<open>'v\<close> of the values stored. \<open>stringify\<close> throws on a value it cannot
  serialize (a cyclic structure, a \<open>BigInt\<close>). \<open>parse\<close> throws on malformed text and may
  yield \<open>null\<close>, which is \<open>None\<close>.
\<close>

record 'v JSON =
  stringify :: "'v \<Rightarrow> thrown + jsstring"
  parse :: "jsstring \<Rightarrow> thrown + 'v option"

text \<open>
  \<open>JSON\<close> on two kinds of value, for examples: a string without quotes or backslashes,
  whose text is the string between double quotes, and a cyclic structure, on which
  \<open>stringify\<close> throws. \<open>parse\<close> throws on a text that is not a string between quotes.
\<close>

datatype stored_value = Text jsstring | Cyclic

definition quoted :: "jsstring \<Rightarrow> jsstring" where
  "quoted s = [0x22] @ s @ [0x22]"

definition value_JSON :: "stored_value JSON" where
  "value_JSON =
     \<lparr>stringify = (\<lambda>v. case v of
                       Text s \<Rightarrow> Inr (quoted s)
                     | Cyclic \<Rightarrow> Inl (ErrorObject (js ''TypeError''))),
      parse = (\<lambda>serialized.
                 if 2 \<le> length serialized \<and> hd serialized = 0x22 \<and> last serialized = 0x22
                 then Inr (Some (Text (butlast (tl serialized))))
                 else Inl (ErrorObject (js ''SyntaxError'')))\<rparr>"

text \<open>
  \<open>JSON.parse\<close> on finitely many texts, for examples: the texts of a table, each with
  its value. It throws on every other text.
\<close>

definition table_parse :: "('v \<times> jsstring) list \<Rightarrow> jsstring \<Rightarrow> thrown + 'v option" where
  "table_parse tab serialized =
     (case map_of (map (\<lambda>(v, t). (t, v)) tab) serialized of
        Some v \<Rightarrow> Inr (Some v)
      | None \<Rightarrow> Inl (ErrorObject (js ''SyntaxError'')))"

text \<open>
  \<open>JSON\<close> at a type of values that \<open>stringify\<close> always serializes, as it does the session
  records (strings and integral numbers): \<open>serialize\<close> gives the text.
\<close>

definition total_JSON :: "('v \<Rightarrow> jsstring) \<Rightarrow> (jsstring \<Rightarrow> thrown + 'v option) \<Rightarrow> 'v JSON" where
  "total_JSON serialize p = \<lparr>stringify = (\<lambda>v. Inr (serialize v)), parse = p\<rparr>"

text \<open>
  The browser's \<open>localStorage\<close> is one store shared by everything on the page: a list of
  items with distinct keys, in the order \<open>key(i)\<close> enumerates them, and a quota on the
  total number of code units held. \<open>setItem\<close> throws when the quota would be exceeded.
\<close>

record LocalStorage =
  items :: "(jsstring \<times> jsstring) list"
  quota :: nat

definition stored_size :: "(jsstring \<times> jsstring) list \<Rightarrow> nat" where
  "stored_size xs = sum_list (map (\<lambda>(k, v). length k + length v) xs)"

definition localStorage_length :: "LocalStorage \<Rightarrow> nat" where
  "localStorage_length ls = length (items ls)"

definition localStorage_key :: "LocalStorage \<Rightarrow> nat \<Rightarrow> jsstring option" where
  "localStorage_key ls i = (if i < length (items ls) then Some (fst (items ls ! i)) else None)"

definition localStorage_getItem :: "LocalStorage \<Rightarrow> jsstring \<Rightarrow> jsstring option" where
  "localStorage_getItem ls k = map_of (items ls) k"

definition localStorage_setItem :: "LocalStorage \<Rightarrow> jsstring \<Rightarrow> jsstring \<Rightarrow> thrown + LocalStorage" where
  "localStorage_setItem ls k v =
     (let items' = AList.update k v (items ls)
      in if quota ls < stored_size items' then Inl (ErrorObject (js ''QuotaExceededError''))
         else Inr (ls\<lparr>items := items'\<rparr>))"

definition localStorage_removeItem :: "LocalStorage \<Rightarrow> jsstring \<Rightarrow> LocalStorage" where
  "localStorage_removeItem ls k = ls\<lparr>items := AList.delete k (items ls)\<rparr>"

subsection \<open>\<open>LocalStorageService\<close>\<close>

record LocalStorageService =
  prefix :: jsstring

definition new_LocalStorageService :: "jsstring option \<Rightarrow> LocalStorageService" where
  "new_LocalStorageService p = \<lparr>prefix = (case p of None \<Rightarrow> js ''app_'' | Some q \<Rightarrow> q)\<rparr>"

definition buildKey :: "LocalStorageService \<Rightarrow> jsstring \<Rightarrow> jsstring" where
  "buildKey this key = prefix this @ key"

text \<open>
  \<open>set\<close>: an exception of \<open>JSON.stringify\<close> or of \<open>setItem\<close> is caught and logged; the
  store is then as before.
\<close>

definition LocalStorageService_set ::
  "'v JSON \<Rightarrow> LocalStorageService \<Rightarrow> LocalStorage \<Rightarrow> jsstring \<Rightarrow> 'v \<Rightarrow> LocalStorage" where
  "LocalStorageService_set J this ls key value =
     (case stringify J value of
        Inl error \<Rightarrow> ls
      | Inr serialized \<Rightarrow>
          (case localStorage_setItem ls (buildKey this key) serialized of
             Inr ls' \<Rightarrow> ls'
           | Inl error \<Rightarrow> ls))"

definition LocalStorageService_get ::
  "'v JSON \<Rightarrow> LocalStorageService \<Rightarrow> LocalStorage \<Rightarrow> jsstring \<Rightarrow> 'v option" where
  "LocalStorageService_get J this ls key =
     (case localStorage_getItem ls (buildKey this key) of
        None \<Rightarrow> None
      | Some item \<Rightarrow> (case parse J item of Inr v \<Rightarrow> v | Inl error \<Rightarrow> None))"

definition LocalStorageService_remove ::
  "LocalStorageService \<Rightarrow> LocalStorage \<Rightarrow> jsstring \<Rightarrow> LocalStorage" where
  "LocalStorageService_remove this ls key = localStorage_removeItem ls (buildKey this key)"

text \<open>
  \<open>clear\<close>: the \<open>for\<close> loop over the indices of the store collects the keys that start
  with the prefix; \<open>forEach\<close> then removes them one by one.
\<close>

function clear_collect ::
  "LocalStorageService \<Rightarrow> LocalStorage \<Rightarrow> nat \<Rightarrow> jsstring list \<Rightarrow> jsstring list" where
  "clear_collect this ls i keysToRemove =
     (if i < localStorage_length ls then
        clear_collect this ls (i + 1)
          (case localStorage_key ls i of
             Some key \<Rightarrow>
               if startsWith key (prefix this) then keysToRemove @ [key] else keysToRemove
           | None \<Rightarrow> keysToRemove)
      else keysToRemove)"
  by pat_completeness auto
termination
  by (relation "measure (\<lambda>(this, ls, i, keysToRemove). localStorage_length ls - i)") auto

declare clear_collect.simps [simp del]

definition LocalStorageService_clear :: "LocalStorageService \<Rightarrow> LocalStorage \<Rightarrow> LocalStorage" where
  "LocalStorageService_clear this ls = foldl localStorage_removeItem ls (clear_collect this ls 0 [])"

subsection \<open>\<open>InMemoryStorageService\<close>\<close>

text \<open>
  The service owns a \<open>Map\<close> from keys to serialized values. Keys are used as given: the
  service has no prefix. \<open>set\<close> has no handler: an exception of \<open>JSON.stringify\<close> leaves
  it, with the map as before. \<open>get\<close> answers \<open>null\<close> for a missing or empty item.
\<close>

record InMemoryStorageService =
  mem_storage :: "jsstring \<rightharpoonup> jsstring"

definition new_InMemoryStorageService :: InMemoryStorageService where
  "new_InMemoryStorageService = \<lparr>mem_storage = Map.empty\<rparr>"

definition InMemoryStorageService_set ::
  "'v JSON \<Rightarrow> InMemoryStorageService \<Rightarrow> jsstring \<Rightarrow> 'v
     \<Rightarrow> thrown + InMemoryStorageService" where
  "InMemoryStorageService_set J this key value =
     (case stringify J value of
        Inl error \<Rightarrow> Inl error
      | Inr serialized \<Rightarrow> Inr (this\<lparr>mem_storage := (mem_storage this)(key \<mapsto> serialized)\<rparr>))"

definition InMemoryStorageService_get ::
  "'v JSON \<Rightarrow> InMemoryStorageService \<Rightarrow> jsstring \<Rightarrow> 'v option" where
  "InMemoryStorageService_get J this key =
     (case mem_storage this key of
        None \<Rightarrow> None
      | Some item \<Rightarrow>
          if item = [] then None
          else (case parse J item of Inr v \<Rightarrow> v | Inl error \<Rightarrow> None))"

definition InMemoryStorageService_remove ::
  "InMemoryStorageService \<Rightarrow> jsstring \<Rightarrow> InMemoryStorageService" where
  "InMemoryStorageService_remove this key = this\<lparr>mem_storage := (mem_storage this)(key := None)\<rparr>"

definition InMemoryStorageService_clear :: "InMemoryStorageService \<Rightarrow> InMemoryStorageService" where
  "InMemoryStorageService_clear this = this\<lparr>mem_storage := Map.empty\<rparr>"

subsection \<open>The \<open>StorageService\<close> interface\<close>

text \<open>
  An implementation of the interface is a record of its four methods over the state
  \<open>'st\<close> they act on: the shared \<open>localStorage\<close> for one, the service's own map for the
  other. The record is the interface as the session manager uses it, at values that
  \<open>JSON.stringify\<close> serializes: there \<open>set\<close> of the in-memory service returns, and the
  branch for its exception is never taken.
\<close>

record ('st, 'v) StorageService =
  storage_set :: "'st \<Rightarrow> jsstring \<Rightarrow> 'v \<Rightarrow> 'st"
  storage_get :: "'st \<Rightarrow> jsstring \<Rightarrow> 'v option"
  storage_remove :: "'st \<Rightarrow> jsstring \<Rightarrow> 'st"
  storage_clear :: "'st \<Rightarrow> 'st"

definition LocalStorageService_impl ::
  "'v JSON \<Rightarrow> LocalStorageService \<Rightarrow> (LocalStorage, 'v) StorageService" where
  "LocalStorageService_impl J this =
     \<lparr>storage_set = LocalStorageService_set J this,
      storage_get = LocalStorageService_get J this,
      storage_remove = LocalStorageService_remove this,
      storage_clear = LocalStorageService_clear this\<rparr>"

definition InMemoryStorageService_impl ::
  "('v \<Rightarrow> jsstring) \<Rightarrow> (jsstring \<Rightarrow> thrown + 'v option)
     \<Rightarrow> (InMemoryStorageService, 'v) StorageService" where
  "InMemoryStorageService_impl serialize p =
     \<lparr>storage_set = (\<lambda>this key value.
        case InMemoryStorageService_set (total_JSON serialize p) this key value of
          Inr this' \<Rightarrow> this'
        | Inl error \<Rightarrow> this),
      storage_get = InMemoryStorageService_get (total_JSON serialize p),
      storage_remove = InMemoryStorageService_remove,
      storage_clear = InMemoryStorageService_clear\<rparr>"

section \<open>\<open>session/SessionManager.ts\<close>: the session manager\<close>

record SessionState =
  session_user :: User
  session_token :: jsstring
  createdAt :: int
  expiresAt :: int

text \<open>
  The manager holds the current session, the state of the storage service injected into
  it, and the session duration in milliseconds. Its methods take the implementation \<open>S\<close>
  of the storage interface and every reading of \<open>Date.now()\<close> they make. Timestamps and
  durations are integral numbers of milliseconds.
\<close>

record 'st SessionManager =
  currentSession :: "SessionState option"
  storage :: 'st
  sessionDurationMs :: int

definition sessionKey :: jsstring where
  "sessionKey = js ''session''"

definition SessionManager_restoreSession ::
  "('st, SessionState) StorageService \<Rightarrow> 'st SessionManager \<Rightarrow> int \<Rightarrow> 'st SessionManager" where
  "SessionManager_restoreSession S this now =
     (case storage_get S (storage this) sessionKey of
        Some stored \<Rightarrow>
          if expiresAt stored > now then this\<lparr>currentSession := Some stored\<rparr>
          else this\<lparr>storage := storage_remove S (storage this) sessionKey\<rparr>
      | None \<Rightarrow> this)"

text \<open>
  The constructor; \<open>sessionDurationHours\<close> is \<open>None\<close> when the argument is left out. The
  argument is a whole number of hours: with whole hours and the integral readings of
  \<open>Date.now()\<close> the arithmetic of the source is the exact one of the model. A fraction of
  an hour is outside the model.
\<close>

definition new_SessionManager ::
  "('st, SessionState) StorageService \<Rightarrow> 'st \<Rightarrow> int option \<Rightarrow> int \<Rightarrow> 'st SessionManager" where
  "new_SessionManager S st sessionDurationHours now =
     SessionManager_restoreSession S
       \<lparr>currentSession = None, storage = st,
        sessionDurationMs =
          (case sessionDurationHours of None \<Rightarrow> 24 | Some h \<Rightarrow> h) * 60 * 60 * 1000\<rparr>
       now"

definition SessionManager_startSession ::
  "('st, SessionState) StorageService \<Rightarrow> 'st SessionManager \<Rightarrow> User \<Rightarrow> jsstring \<Rightarrow> int
     \<Rightarrow> 'st SessionManager" where
  "SessionManager_startSession S this u t now =
     (let session = \<lparr>session_user = u, session_token = t, createdAt = now,
                     expiresAt = now + sessionDurationMs this\<rparr>
      in this\<lparr>currentSession := Some session,
              storage := storage_set S (storage this) sessionKey session\<rparr>)"

definition SessionManager_isExpired :: "'st SessionManager \<Rightarrow> int \<Rightarrow> bool" where
  "SessionManager_isExpired this now =
     (case currentSession this of None \<Rightarrow> True | Some session \<Rightarrow> now > expiresAt session)"

definition SessionManager_getSession :: "'st SessionManager \<Rightarrow> int \<Rightarrow> (User \<times> jsstring) option" where
  "SessionManager_getSession this now =
     (case currentSession this of
        None \<Rightarrow> None
      | Some session \<Rightarrow>
          if SessionManager_isExpired this now then None
          else Some (session_user session, session_token session))"

definition SessionManager_getUser :: "'st SessionManager \<Rightarrow> int \<Rightarrow> User option" where
  "SessionManager_getUser this now =
     (case SessionManager_getSession this now of
        Some session \<Rightarrow> Some (fst session)
      | None \<Rightarrow> None)"

definition SessionManager_getToken :: "'st SessionManager \<Rightarrow> jsstring option" where
  "SessionManager_getToken this =
     (case currentSession this of Some session \<Rightarrow> Some (session_token session) | None \<Rightarrow> None)"

definition SessionManager_endSession ::
  "('st, SessionState) StorageService \<Rightarrow> 'st SessionManager \<Rightarrow> 'st SessionManager" where
  "SessionManager_endSession S this =
     this\<lparr>currentSession := None, storage := storage_remove S (storage this) sessionKey\<rparr>"

definition SessionManager_isActive :: "'st SessionManager \<Rightarrow> int \<Rightarrow> bool" where
  "SessionManager_isActive this now =
     (currentSession this \<noteq> None \<and> \<not> SessionManager_isExpired this now)"

definition SessionManager_getTimeRemaining :: "'st SessionManager \<Rightarrow> int \<Rightarrow> int" where
  "SessionManager_getTimeRemaining this now =
     (case currentSession this of
        None \<Rightarrow> 0
      | Some session \<Rightarrow> (let remaining = expiresAt session - now in max 0 remaining))"



section \<open>\<open>session/SessionManager.ts\<close>: the login use case\<close>

subsection \<open>The collaborators, as the use case sees them\<close>

text \<open>
  The use case knows its collaborators by their interfaces only. An implementation is a
  record of the methods the use case calls, over the implementation's state; a method
  may throw, and then returns \<open>Inl\<close> with the state it left behind. The clock and random
  readings of a call are fixed when the record is built.
\<close>

record 'a AuthService =
  authenticate :: "'a \<Rightarrow> jsstring \<Rightarrow> jsstring \<Rightarrow> (thrown + AuthResult) \<times> 'a"

record 's SessionService =
  startSession :: "'s \<Rightarrow> User \<Rightarrow> jsstring \<Rightarrow> (thrown + unit) \<times> 's"
  getSession :: "'s \<Rightarrow> (User \<times> jsstring) option"
  endSession :: "'s \<Rightarrow> (thrown + unit) \<times> 's"
  isActive :: "'s \<Rightarrow> bool"

definition AuthServiceImpl_impl :: "int \<Rightarrow> jsstring \<Rightarrow> AuthServiceImpl AuthService" where
  "AuthServiceImpl_impl timestamp random =
     \<lparr>authenticate = (\<lambda>this email password.
        (case AuthServiceImpl_authenticate this email password timestamp random of
           (result, this') \<Rightarrow> (Inr result, this')))\<rparr>"

definition SessionManager_impl ::
  "('st, SessionState) StorageService \<Rightarrow> int \<Rightarrow> 'st SessionManager SessionService" where
  "SessionManager_impl S now =
     \<lparr>startSession = (\<lambda>this u t. (Inr (), SessionManager_startSession S this u t now)),
      getSession = (\<lambda>this. SessionManager_getSession this now),
      endSession = (\<lambda>this. (Inr (), SessionManager_endSession S this)),
      isActive = (\<lambda>this. SessionManager_isActive this now)\<rparr>"

subsection \<open>\<open>LoginUserUseCase\<close>\<close>

text \<open>
  \<open>LoginSuccess user\<close> is \<open>{success: true, user}\<close> and \<open>LoginFailure error\<close> is
  \<open>{success: false, error}\<close>, the two shapes of \<open>LoginResult\<close> the code builds.
\<close>

datatype LoginResult = LoginSuccess User | LoginFailure jsstring

record LogoutResult =
  success :: bool

record AuthState =
  state_isAuthenticated :: bool
  state_user :: "User option"
  state_isLoading :: bool

record ('a, 's) LoginUserUseCase =
  authService :: 'a
  sessionService :: 's
  isLoading :: bool

definition new_LoginUserUseCase :: "'a \<Rightarrow> 's \<Rightarrow> ('a, 's) LoginUserUseCase" where
  "new_LoginUserUseCase a s = \<lparr>authService = a, sessionService = s, isLoading = False\<rparr>"

definition msg_in_progress :: jsstring where
  "msg_in_progress = js ''Login en progreso''"

definition msg_email_required :: jsstring where
  "msg_email_required = js ''El email es requerido''"

definition msg_password_required :: jsstring where
  "msg_password_required = js ''La contrase'' @ [0xF1] @ js ''a es requerida''"

definition msg_email_format :: jsstring where
  "msg_email_format = js ''Formato de email inv'' @ [0xE1] @ js ''lido''"

definition msg_unknown :: jsstring where
  "msg_unknown = js ''Error desconocido durante el login''"

text \<open>
  The regular expression \<open>/^[^\s@]+@[^\s@]+\.[^\s@]+$/\<close>. The first class cannot match
  \<open>@\<close>, so the local part is the longest run of class characters at the start; after the
  \<open>@\<close> everything is of the class, with a dot that is neither first nor last.
\<close>

definition notSpaceOrAt :: "code_unit \<Rightarrow> bool" where
  "notSpaceOrAt c = (\<not> isWhiteSpace c \<and> c \<noteq> 0x40)"

definition emailRegex_test :: "jsstring \<Rightarrow> bool" where
  "emailRegex_test s =
     (let local = takeWhile notSpaceOrAt s; rest = dropWhile notSpaceOrAt s
      in local \<noteq> [] \<and>
         (case rest of
            [] \<Rightarrow> False
          | c # domain \<Rightarrow>
              c = 0x40 \<and> list_all notSpaceOrAt domain \<and> 0x2E \<in> set (butlast (tl domain))))"

definition validateInput :: "jsstring \<Rightarrow> jsstring \<Rightarrow> jsstring option" where
  "validateInput email password =
     (if trim email = [] then Some msg_email_required
      else if password = [] then Some msg_password_required
      else if \<not> emailRegex_test email then Some msg_email_format
      else None)"

text \<open>
  \<open>execute\<close> is an \<open>async\<close> method with one suspension point, the \<open>await\<close> of
  \<open>authenticate\<close>. It runs in two steps. \<open>execute_enter\<close> is the code up to the \<open>await\<close>:
  it either returns at once, or has called \<open>authenticate\<close> with the given arguments and
  waits for the promise. \<open>execute_resume\<close> is the code from the \<open>await\<close> on, given what
  the promise settled with (\<open>Inl\<close> for a rejection or a throw of the call itself). Between
  the two steps other calls on the same instance may run.
\<close>

datatype execute_step = Return LoginResult | AwaitAuthenticate jsstring jsstring

definition LoginUserUseCase_execute_enter ::
  "('a, 's) LoginUserUseCase \<Rightarrow> jsstring \<Rightarrow> jsstring \<Rightarrow> execute_step \<times> ('a, 's) LoginUserUseCase" where
  "LoginUserUseCase_execute_enter this email password =
     (if isLoading this then (Return (LoginFailure msg_in_progress), this)
      else (let this1 = this\<lparr>isLoading := True\<rparr>
            in case validateInput email password of
                 Some validationError \<Rightarrow>
                   (Return (LoginFailure validationError), this1\<lparr>isLoading := False\<rparr>)
               | None \<Rightarrow> (AwaitAuthenticate email password, this1)))"

text \<open>The rest of the \<open>try\<close> block: its outcome is a result or an exception.\<close>

definition execute_try ::
  "'s SessionService \<Rightarrow> ('a, 's) LoginUserUseCase \<Rightarrow> thrown + AuthResult
     \<Rightarrow> (thrown + LoginResult) \<times> ('a, 's) LoginUserUseCase" where
  "execute_try SS this settled =
     (case settled of
        Inl error \<Rightarrow> (Inl error, this)
      | Inr (AuthFailure err) \<Rightarrow> (Inr (LoginFailure err), this)
      | Inr (AuthSuccess u t) \<Rightarrow>
          (case startSession SS (sessionService this) u t of
             (Inl error, s') \<Rightarrow> (Inl error, this\<lparr>sessionService := s'\<rparr>)
           | (Inr _, s') \<Rightarrow> (Inr (LoginSuccess u), this\<lparr>sessionService := s'\<rparr>)))"

definition execute_catch :: "thrown \<Rightarrow> LoginResult" where
  "execute_catch error =
     (let errorMessage = (case error of ErrorObject message \<Rightarrow> message | OtherValue \<Rightarrow> msg_unknown)
      in LoginFailure errorMessage)"

text \<open>
  \<open>try\<close>, \<open>catch\<close> and \<open>finally\<close> together. The outcome of the whole call is again a
  result or an exception, \<open>Inl\<close> being an exception that leaves \<open>execute\<close>.
\<close>

definition LoginUserUseCase_execute_resume ::
  "'s SessionService \<Rightarrow> ('a, 's) LoginUserUseCase \<Rightarrow> thrown + AuthResult
     \<Rightarrow> (thrown + LoginResult) \<times> ('a, 's) LoginUserUseCase" where
  "LoginUserUseCase_execute_resume SS this settled =
     (case execute_try SS this settled of
        (Inr result, this') \<Rightarrow> (Inr result, this'\<lparr>isLoading := False\<rparr>)
      | (Inl error, this') \<Rightarrow> (Inr (execute_catch error), this'\<lparr>isLoading := False\<rparr>))"

text \<open>
  A call of \<open>execute\<close> that runs to its end with no other call in between: the promise of
  \<open>authenticate\<close> settles with what the authenticator computes.
\<close>

definition LoginUserUseCase_execute ::
  "'a AuthService \<Rightarrow> 's SessionService \<Rightarrow> ('a, 's) LoginUserUseCase \<Rightarrow> jsstring \<Rightarrow> jsstring
     \<Rightarrow> (thrown + LoginResult) \<times> ('a, 's) LoginUserUseCase" where
  "LoginUserUseCase_execute AS SS this email password =
     (case LoginUserUseCase_execute_enter this email password of
        (Return result, this') \<Rightarrow> (Inr result, this')
      | (AwaitAuthenticate e p, this') \<Rightarrow>
          (case authenticate AS (authService this') e p of
             (settled, a') \<Rightarrow>
               LoginUserUseCase_execute_resume SS (this'\<lparr>authService := a'\<rparr>) settled))"

definition LoginUserUseCase_logout ::
  "'s SessionService \<Rightarrow> ('a, 's) LoginUserUseCase
     \<Rightarrow> (thrown + LogoutResult) \<times> ('a, 's) LoginUserUseCase" where
  "LoginUserUseCase_logout SS this =
     (case endSession SS (sessionService this) of
        (Inr _, s') \<Rightarrow> (Inr \<lparr>success = True\<rparr>, this\<lparr>sessionService := s'\<rparr>)
      | (Inl error, s') \<Rightarrow> (Inr \<lparr>success = False\<rparr>, this\<lparr>sessionService := s'\<rparr>))"

definition LoginUserUseCase_getAuthState ::
  "'s SessionService \<Rightarrow> ('a, 's) LoginUserUseCase \<Rightarrow> AuthState" where
  "LoginUserUseCase_getAuthState SS this =
     (let session = getSession SS (sessionService this)
      in \<lparr>state_isAuthenticated = isActive SS (sessionService this),
          state_user = (case session of Some s \<Rightarrow> Some (fst s) | None \<Rightarrow> None),
          state_isLoading = isLoading this\<rparr>)"

section \<open>Example values\<close>

text \<open>
  A user, a persisted session record with its text, an in-memory storage service holding
  that text under the session key, collaborators that throw, and a \<open>localStorage\<close> shared
  with other code.
\<close>

definition example_user :: User where
  "example_user = \<lparr>user_id = js ''1'', user_email = js ''test@test.com'',
                    user_name = js ''Usuario Test''\<rparr>"

definition example_session :: SessionState where
  "example_session = \<lparr>session_user = example_user, session_token = js ''token_1_500_k3j9x'',
                       createdAt = 500, expiresAt = 3600500\<rparr>"

definition example_serialize :: "SessionState \<Rightarrow> jsstring" where
  "example_serialize v = (if v = example_session then js ''{session}'' else js ''{}'')"

definition example_storage :: "(InMemoryStorageService, SessionState) StorageService" where
  "example_storage =
     InMemoryStorageService_impl example_serialize
       (table_parse [(example_session, js ''{session}'')])"

definition example_store :: InMemoryStorageService where
  "example_store = \<lparr>mem_storage = [sessionKey \<mapsto> js ''{session}'']\<rparr>"

definition throwing_session :: "unit SessionService" where
  "throwing_session =
     \<lparr>startSession = (\<lambda>s u t. (Inl (ErrorObject (js ''storage unavailable'')), s)),
      getSession = (\<lambda>s. None),
      endSession = (\<lambda>s. (Inl OtherValue, s)),
      isActive = (\<lambda>s. False)\<rparr>"

definition rejecting_auth :: "unit AuthService" where
  "rejecting_auth = \<lparr>authenticate = (\<lambda>a email password. (Inl OtherValue, a))\<rparr>"

definition example_localStorage :: LocalStorage where
  "example_localStorage =
     \<lparr>items = [(js ''poo_demo_session'', js ''{old}''), (js ''theme'', js ''dark''),
               (js ''poo_demo_lang'', js ''en''), (js ''other_app_session'', js ''{}'')],
      quota = 5000000\<rparr>"




definition full_localStorage :: LocalStorage where
  "full_localStorage = \<lparr>items = [(js ''theme'', js ''dark'')], quota = 16\<rparr>"

section \<open>The authenticator\<close>

lemma js_nonempty: "s \<noteq> [] \<Longrightarrow> js s \<noteq> []"
  by (simp add: js_def)

lemma findValidUser_None:
  "findValidUser email password = None \<longleftrightarrow>
     (\<forall>vu \<in> set validUsers. \<not> (vu_email vu = email \<and> vu_password vu = password))"
  unfolding findValidUser_def by (auto simp: find_None_iff)

lemma findValidUser_test:
  "findValidUser (js ''test@test.com'') (js ''123456'') =
     Some \<lparr>vu_email = js ''test@test.com'', vu_password = js ''123456'',
       vu_user = \<lparr>user_id = js ''1'', user_email = js ''test@test.com'',
                  user_name = js ''Usuario Test''\<rparr>\<rparr>"
  by (simp add: findValidUser_def validUsers_def)

lemma findValidUser_admin:
  "findValidUser (js ''admin@test.com'') (js ''admin123'') =
     Some \<lparr>vu_email = js ''admin@test.com'', vu_password = js ''admin123'',
       vu_user = \<lparr>user_id = js ''2'', user_email = js ''admin@test.com'',
                  user_name = js ''Administrador''\<rparr>\<rparr>"
  by (simp add: findValidUser_def validUsers_def js_def)

lemma findValidUser_bad:
  "findValidUser (js ''bad@test.com'') (js ''wrong'') = None"
  by (simp add: findValidUser_def validUsers_def js_def)

lemma registry_pairs:
  "(\<exists>vu \<in> set validUsers. vu_email vu = email \<and> vu_password vu = password) \<longleftrightarrow>
   (email, password) \<in> {(js ''test@test.com'', js ''123456''),
                        (js ''admin@test.com'', js ''admin123'')}"
  by (auto simp: validUsers_def)

text \<open>
  Claim C1. For each pair of the registry, \<open>(test@test.com, 123456)\<close> and
  \<open>(admin@test.com, admin123)\<close>, \<open>authenticate\<close> succeeds with a user whose email is the
  email given; for the first pair the user is \<open>{id: 1, email: test@test.com, name:
  Usuario Test}\<close>. For a pair of non-empty strings that is not in the registry it fails
  with the message \<open>Credenciales invalidas\<close> of the source, whose accented letter is the code unit
  \<open>0xE1\<close>.
\<close>

theorem authenticate_registry:
  "((email, password) \<in> {(js ''test@test.com'', js ''123456''),
                          (js ''admin@test.com'', js ''admin123'')} \<longrightarrow>
      (\<exists>user token. fst (AuthServiceImpl_authenticate this email password timestamp random)
                       = AuthSuccess user token \<and> user_email user = email)) \<and>
   fst (AuthServiceImpl_authenticate this (js ''test@test.com'') (js ''123456'') timestamp random)
     = AuthSuccess \<lparr>user_id = js ''1'', user_email = js ''test@test.com'',
                     user_name = js ''Usuario Test''\<rparr>
                   (generateToken (js ''1'') timestamp random) \<and>
   (email \<noteq> [] \<and> password \<noteq> [] \<and>
    (email, password) \<notin> {(js ''test@test.com'', js ''123456''),
                          (js ''admin@test.com'', js ''admin123'')} \<longrightarrow>
      fst (AuthServiceImpl_authenticate this email password timestamp random)
        = AuthFailure (js ''Credenciales inv'' @ [0xE1] @ js ''lidas''))"
proof (intro conjI impI)
  assume "(email, password) \<in> {(js ''test@test.com'', js ''123456''),
                          (js ''admin@test.com'', js ''admin123'')}"
  then consider "email = js ''test@test.com'' \<and> password = js ''123456''"
    | "email = js ''admin@test.com'' \<and> password = js ''admin123''" by auto
  then show "\<exists>user token. fst (AuthServiceImpl_authenticate this email password timestamp random)
                       = AuthSuccess user token \<and> user_email user = email"
  proof cases
    case 1
    then show ?thesis
      by (simp add: AuthServiceImpl_authenticate_def findValidUser_test js_nonempty Let_def)
  next
    case 2
    then show ?thesis
      by (simp add: AuthServiceImpl_authenticate_def findValidUser_admin js_nonempty Let_def)
  qed
next
  show "fst (AuthServiceImpl_authenticate this (js ''test@test.com'') (js ''123456'') timestamp random)
     = AuthSuccess \<lparr>user_id = js ''1'', user_email = js ''test@test.com'',
                     user_name = js ''Usuario Test''\<rparr>
                   (generateToken (js ''1'') timestamp random)"
    by (simp add: AuthServiceImpl_authenticate_def findValidUser_test js_nonempty Let_def)
next
  assume a: "email \<noteq> [] \<and> password \<noteq> [] \<and>
    (email, password) \<notin> {(js ''test@test.com'', js ''123456''),
                          (js ''admin@test.com'', js ''admin123'')}"
  then have "findValidUser email password = None"
    unfolding findValidUser_None using registry_pairs [of email password] by blast
  with a show "fst (AuthServiceImpl_authenticate this email password timestamp random)
        = AuthFailure (js ''Credenciales inv'' @ [0xE1] @ js ''lidas'')"
    by (simp add: AuthServiceImpl_authenticate_def msg_invalid_credentials_def)
qed

theorem authenticate_registry_witness:
  "fst (AuthServiceImpl_authenticate new_AuthServiceImpl (js ''admin@test.com'') (js ''admin123'')
         1700000000000 (js ''k3j9x'')) =
     AuthSuccess \<lparr>user_id = js ''2'', user_email = js ''admin@test.com'',
                   user_name = js ''Administrador''\<rparr>
       (js ''token_2_1700000000000_k3j9x'') \<and>
   fst (AuthServiceImpl_authenticate new_AuthServiceImpl (js ''bad@test.com'') (js ''wrong'')
         1700000000000 (js ''k3j9x''))
     = AuthFailure (js ''Credenciales inv'' @ [0xE1] @ js ''lidas'')"
proof -
  have ne: "js ''bad@test.com'' \<noteq> [] \<and> js ''wrong'' \<noteq> [] \<and>
      (js ''bad@test.com'', js ''wrong'') \<notin> {(js ''test@test.com'', js ''123456''),
                          (js ''admin@test.com'', js ''admin123'')}"
    by (simp add: js_def)
  have ok: "fst (AuthServiceImpl_authenticate new_AuthServiceImpl (js ''admin@test.com'')
         (js ''admin123'') 1700000000000 (js ''k3j9x'')) =
     AuthSuccess \<lparr>user_id = js ''2'', user_email = js ''admin@test.com'',
                   user_name = js ''Administrador''\<rparr>
       (js ''token_2_1700000000000_k3j9x'')"
    by (simp add: AuthServiceImpl_authenticate_def findValidUser_def validUsers_def
        generateToken_def Number_toString_def digits.simps js_def Let_def)
  from authenticate_registry [of "js ''bad@test.com''" "js ''wrong''" new_AuthServiceImpl
      1700000000000 "js ''k3j9x''"] ne ok
  show ?thesis by blast
qed

text \<open>
  The token generator is injective in the clock reading and the random suffix: the decimal
  text of the reading has no underscore, so it ends at the first one, and the text
  determines the number.
\<close>

lemma digit_unat: "d < 10 \<Longrightarrow> unat (48 + word_of_nat d :: code_unit) = 48 + d"
proof -
  assume d: "d < 10"
  have "(48 + word_of_nat d :: code_unit) = word_of_nat (48 + d)" by simp
  then have "unat (48 + word_of_nat d :: code_unit) = (48 + d) mod 2 ^ 16"
    by (simp only: unat_of_nat) simp
  with d show ?thesis by simp
qed

lemma digits_value:
  "foldl (\<lambda>a c. 10 * a + (unat c - 48)) 0 (digits n) = n"
proof (induction n rule: digits.induct)
  case (1 n)
  show ?case
  proof (cases "n < 10")
    case True
    then show ?thesis by (subst digits.simps) (simp add: digit_unat)
  next
    case False
    then have "foldl (\<lambda>a c. 10 * a + (unat c - 48)) 0 (digits (n div 10)) = n div 10"
      using 1 by simp
    with False show ?thesis
      by (subst digits.simps) (simp add: digit_unat)
  qed
qed

lemma digits_inj: "digits n = digits m \<Longrightarrow> n = m"
proof -
  assume "digits n = digits m"
  then have "foldl (\<lambda>a c. 10 * a + (unat c - 48)) 0 (digits n)
           = foldl (\<lambda>a c. 10 * a + (unat c - 48)) 0 (digits m)"
    by (rule arg_cong)
  then show "n = m" by (simp only: digits_value)
qed

lemma digits_set: "c \<in> set (digits n) \<Longrightarrow> 48 \<le> unat c \<and> unat c \<le> 57"
proof (induction n rule: digits.induct)
  case (1 n)
  show ?case
  proof (cases "n < 10")
    case True
    with 1(2) have "c = 48 + word_of_nat n"
      by (subst (asm) digits.simps) simp
    with True show ?thesis by (simp add: digit_unat)
  next
    case False
    with 1(2) have "c \<in> set (digits (n div 10)) \<or> c = 48 + word_of_nat (n mod 10)"
      by (subst (asm) digits.simps) auto
    then show ?thesis
    proof
      assume "c \<in> set (digits (n div 10))"
      with False 1(1) show ?thesis by simp
    next
      assume "c = 48 + word_of_nat (n mod 10)"
      then show ?thesis by (simp add: digit_unat)
    qed
  qed
qed

lemma digits_nonempty: "digits n \<noteq> []"
  by (subst digits.simps) simp

lemma digits_no_sign: "c \<in> set (digits n) \<Longrightarrow> c \<noteq> 0x2D \<and> c \<noteq> 0x5F"
proof -
  assume "c \<in> set (digits n)"
  then have b: "48 \<le> unat c \<and> unat c \<le> 57" by (rule digits_set)
  have "c = 0x2D \<Longrightarrow> unat c = 45" by simp
  moreover have "c = 0x5F \<Longrightarrow> unat c = 95" by simp
  ultimately show ?thesis using b by fastforce
qed

lemma split_at_separator:
  assumes "xs @ c # ys = xs' @ c # ys'" and "c \<notin> set xs" and "c \<notin> set xs'"
  shows "xs = xs' \<and> ys = ys'"
  using assms
proof (induction xs arbitrary: xs')
  case Nil
  then show ?case by (cases xs') auto
next
  case (Cons x xs)
  then show ?case by (cases xs') auto
qed

lemma Number_toString_no_separator: "c \<in> set (Number_toString i) \<Longrightarrow> c \<noteq> 0x5F"
proof (cases "i < 0")
  case True
  assume "c \<in> set (Number_toString i)"
  with True have "c = 0x2D \<or> c \<in> set (digits (nat (- i)))"
    by (simp add: Number_toString_def js_def)
  then show ?thesis using digits_no_sign [of c "nat (- i)"] by fastforce
next
  case False
  assume "c \<in> set (Number_toString i)"
  with False have "c \<in> set (digits (nat i))" by (simp add: Number_toString_def)
  then show ?thesis using digits_no_sign by blast
qed

lemma hd_digits_no_sign: "hd (digits n) \<noteq> 0x2D"
proof -
  have "hd (digits n) \<in> set (digits n)" using digits_nonempty by simp
  then show ?thesis using digits_no_sign by blast
qed

lemma Number_toString_inj: "Number_toString i = Number_toString j \<Longrightarrow> i = j"
proof -
  assume eq: "Number_toString i = Number_toString j"
  have sign: "\<And>k. k < 0 \<Longrightarrow> hd (Number_toString k) = 0x2D"
    by (simp add: Number_toString_def js_def)
  have nosign: "\<And>k. \<not> k < 0 \<Longrightarrow> hd (Number_toString k) \<noteq> 0x2D"
    by (simp add: Number_toString_def hd_digits_no_sign)
  show "i = j"
  proof (cases "i < 0")
    case True
    with sign eq nosign have j: "j < 0" by metis
    with True eq have "digits (nat (- i)) = digits (nat (- j))"
      by (simp add: Number_toString_def)
    then have "nat (- i) = nat (- j)" by (rule digits_inj)
    with True j show ?thesis by simp
  next
    case False
    with sign eq nosign have j: "\<not> j < 0" by metis
    with False eq have "digits (nat i) = digits (nat j)" by (simp add: Number_toString_def)
    then have "nat i = nat j" by (rule digits_inj)
    with False j show ?thesis by simp
  qed
qed

lemma generateToken_inj:
  "generateToken userId timestamp random = generateToken userId timestamp' random' \<longleftrightarrow>
     timestamp = timestamp' \<and> random = random'"
proof
  assume "generateToken userId timestamp random = generateToken userId timestamp' random'"
  then have "Number_toString timestamp @ 0x5F # random
           = Number_toString timestamp' @ 0x5F # random'"
    by (simp add: generateToken_def js_def)
  moreover have "0x5F \<notin> set (Number_toString timestamp)"
    and "0x5F \<notin> set (Number_toString timestamp')"
    using Number_toString_no_separator by blast+
  ultimately have "Number_toString timestamp = Number_toString timestamp' \<and> random = random'"
    by (rule split_at_separator)
  then show "timestamp = timestamp' \<and> random = random'"
    using Number_toString_inj by blast
next
  assume "timestamp = timestamp' \<and> random = random'"
  then show "generateToken userId timestamp random = generateToken userId timestamp' random'"
    by simp
qed

lemma refreshed_not_registry:
  "vu \<in> set validUsers \<Longrightarrow>
     generateToken (js ''refreshed'') timestamp random
       \<noteq> generateToken (user_id (vu_user vu)) timestamp' random'"
  by (auto simp: validUsers_def generateToken_def js_def)

text \<open>
  Claim C7, as stated: after \<open>refreshToken(t)\<close> on a valid \<open>t\<close>, \<open>validateToken(t)\<close>
  returns false. A token is issued by \<open>authenticate\<close> and refreshed; the token that comes
  out is refreshed again at the same reading of the clock and with the same random
  suffix. The generator gives the same token, which is removed and put back, and
  \<open>validateToken\<close> still accepts it.
\<close>

theorem refreshToken_repeats_counterexample:
  "snd (AuthServiceImpl_refreshToken
          (snd (AuthServiceImpl_authenticate new_AuthServiceImpl (js ''test@test.com'')
                  (js ''123456'') 1700000000000 (js ''k3j9x'')))
          (js ''token_1_1700000000000_k3j9x'') 1700000000500 (js ''q8w2''))
     = \<lparr>validTokens = {js ''token_refreshed_1700000000500_q8w2''}\<rparr> \<and>
   js ''token_refreshed_1700000000500_q8w2''
     \<in> validTokens \<lparr>validTokens = {js ''token_refreshed_1700000000500_q8w2''}\<rparr> \<and>
   fst (AuthServiceImpl_refreshToken \<lparr>validTokens = {js ''token_refreshed_1700000000500_q8w2''}\<rparr>
          (js ''token_refreshed_1700000000500_q8w2'') 1700000000500 (js ''q8w2''))
     = Some (js ''token_refreshed_1700000000500_q8w2'') \<and>
   AuthServiceImpl_validateToken
     (snd (AuthServiceImpl_refreshToken
             \<lparr>validTokens = {js ''token_refreshed_1700000000500_q8w2''}\<rparr>
             (js ''token_refreshed_1700000000500_q8w2'') 1700000000500 (js ''q8w2'')))
     (js ''token_refreshed_1700000000500_q8w2'')"
proof -
  have gen: "generateToken (js ''refreshed'') 1700000000500 (js ''q8w2'')
        = js ''token_refreshed_1700000000500_q8w2''"
    by (simp add: generateToken_def Number_toString_def digits.simps js_def)
  have gen1: "generateToken (js ''1'') 1700000000000 (js ''k3j9x'')
        = js ''token_1_1700000000000_k3j9x''"
    by (simp add: generateToken_def Number_toString_def digits.simps js_def)
  have issued: "snd (AuthServiceImpl_authenticate new_AuthServiceImpl (js ''test@test.com'')
                  (js ''123456'') 1700000000000 (js ''k3j9x''))
        = \<lparr>validTokens = {js ''token_1_1700000000000_k3j9x''}\<rparr>"
    by (simp add: AuthServiceImpl_authenticate_def findValidUser_test js_nonempty Let_def gen1
        new_AuthServiceImpl_def)
  show ?thesis
    unfolding issued
    by (simp add: AuthServiceImpl_refreshToken_def AuthServiceImpl_validateToken_def Let_def gen)
qed

text \<open>
  Claim C7, amended. \<open>refreshToken(t)\<close> returns \<open>null\<close> and leaves the service as it was
  when \<open>t\<close> is not a valid token. When \<open>t\<close> is valid it removes \<open>t\<close>, adds the token \<open>t'\<close> it
  generates and returns \<open>t'\<close>: \<open>validateToken(t')\<close> is then true, every token other than
  \<open>t\<close> and \<open>t'\<close> is valid exactly when it was before, and \<open>validateToken(t)\<close> is false
  unless \<open>t'\<close> is \<open>t\<close>. The token \<open>t'\<close> is \<open>token_refreshed_\<close>, the clock reading, an
  underscore and the random suffix. It differs from every token \<open>authenticate\<close> issues
  and from every refresh token of another clock reading or random suffix.
\<close>

theorem refreshToken_replaces_token:
  "(token \<notin> validTokens this \<longrightarrow>
      AuthServiceImpl_refreshToken this token timestamp random = (None, this)) \<and>
   (token \<in> validTokens this \<longrightarrow>
      AuthServiceImpl_refreshToken this token timestamp random
        = (Some (generateToken (js ''refreshed'') timestamp random),
           this\<lparr>validTokens := insert (generateToken (js ''refreshed'') timestamp random)
                                  (validTokens this - {token})\<rparr>) \<and>
      AuthServiceImpl_validateToken
        (snd (AuthServiceImpl_refreshToken this token timestamp random))
        (generateToken (js ''refreshed'') timestamp random) \<and>
      (AuthServiceImpl_validateToken
         (snd (AuthServiceImpl_refreshToken this token timestamp random)) token
       \<longleftrightarrow> generateToken (js ''refreshed'') timestamp random = token) \<and>
      (\<forall>s. s \<noteq> token \<and> s \<noteq> generateToken (js ''refreshed'') timestamp random \<longrightarrow>
         AuthServiceImpl_validateToken
           (snd (AuthServiceImpl_refreshToken this token timestamp random)) s
         = AuthServiceImpl_validateToken this s)) \<and>
   generateToken (js ''refreshed'') timestamp random
     = js ''token_refreshed_'' @ Number_toString timestamp @ js ''_'' @ random \<and>
   (\<forall>timestamp' random'.
      generateToken (js ''refreshed'') timestamp random
        = generateToken (js ''refreshed'') timestamp' random'
      \<longleftrightarrow> timestamp = timestamp' \<and> random = random') \<and>
   (\<forall>vu \<in> set validUsers. \<forall>timestamp' random'.
      generateToken (js ''refreshed'') timestamp random
        \<noteq> generateToken (user_id (vu_user vu)) timestamp' random')"
proof (intro conjI impI allI ballI)
  assume "token \<notin> validTokens this"
  then show "AuthServiceImpl_refreshToken this token timestamp random = (None, this)"
    by (simp add: AuthServiceImpl_refreshToken_def)
next
  assume "token \<in> validTokens this"
  then show "AuthServiceImpl_refreshToken this token timestamp random
        = (Some (generateToken (js ''refreshed'') timestamp random),
           this\<lparr>validTokens := insert (generateToken (js ''refreshed'') timestamp random)
                                  (validTokens this - {token})\<rparr>)"
    by (simp add: AuthServiceImpl_refreshToken_def Let_def)
next
  assume "token \<in> validTokens this"
  then show "AuthServiceImpl_validateToken
        (snd (AuthServiceImpl_refreshToken this token timestamp random))
        (generateToken (js ''refreshed'') timestamp random)"
    by (simp add: AuthServiceImpl_refreshToken_def AuthServiceImpl_validateToken_def Let_def)
next
  assume "token \<in> validTokens this"
  then show "AuthServiceImpl_validateToken
         (snd (AuthServiceImpl_refreshToken this token timestamp random)) token
       \<longleftrightarrow> generateToken (js ''refreshed'') timestamp random = token"
    by (auto simp: AuthServiceImpl_refreshToken_def AuthServiceImpl_validateToken_def Let_def)
next
  fix s
  assume "token \<in> validTokens this"
    and "s \<noteq> token \<and> s \<noteq> generateToken (js ''refreshed'') timestamp random"
  then show "AuthServiceImpl_validateToken
           (snd (AuthServiceImpl_refreshToken this token timestamp random)) s
         = AuthServiceImpl_validateToken this s"
    by (simp add: AuthServiceImpl_refreshToken_def AuthServiceImpl_validateToken_def Let_def)
next
  show "generateToken (js ''refreshed'') timestamp random
     = js ''token_refreshed_'' @ Number_toString timestamp @ js ''_'' @ random"
    by (simp add: generateToken_def js_def)
next
  fix timestamp' random'
  show "generateToken (js ''refreshed'') timestamp random
        = generateToken (js ''refreshed'') timestamp' random'
      \<longleftrightarrow> timestamp = timestamp' \<and> random = random'"
    by (rule generateToken_inj)
next
  fix vu timestamp' random'
  assume "vu \<in> set validUsers"
  then show "generateToken (js ''refreshed'') timestamp random
        \<noteq> generateToken (user_id (vu_user vu)) timestamp' random'"
    by (rule refreshed_not_registry)
qed

theorem refreshToken_replaces_token_witness:
  "AuthServiceImpl_refreshToken \<lparr>validTokens = {js ''token_1_1700000000000_k3j9x''}\<rparr>
       (js ''token_2_5_zz'') 1700000000500 (js ''q8w2'')
     = (None, \<lparr>validTokens = {js ''token_1_1700000000000_k3j9x''}\<rparr>) \<and>
   AuthServiceImpl_refreshToken
       \<lparr>validTokens = {js ''token_1_1700000000000_k3j9x'', js ''token_2_1700000000100_zz''}\<rparr>
       (js ''token_1_1700000000000_k3j9x'') 1700000000500 (js ''q8w2'')
     = (Some (js ''token_refreshed_1700000000500_q8w2''),
        \<lparr>validTokens = {js ''token_refreshed_1700000000500_q8w2'',
                         js ''token_2_1700000000100_zz''}\<rparr>) \<and>
   \<not> AuthServiceImpl_validateToken
     (snd (AuthServiceImpl_refreshToken
        \<lparr>validTokens = {js ''token_1_1700000000000_k3j9x'', js ''token_2_1700000000100_zz''}\<rparr>
        (js ''token_1_1700000000000_k3j9x'') 1700000000500 (js ''q8w2'')))
     (js ''token_1_1700000000000_k3j9x'') \<and>
   generateToken (js ''refreshed'') 1700000000500 (js ''q8w2'')
     \<noteq> generateToken (js ''1'') 1700000000000 (js ''k3j9x'')"
proof -
  let ?one = "\<lparr>validTokens = {js ''token_1_1700000000000_k3j9x''}\<rparr>"
  let ?two = "\<lparr>validTokens = {js ''token_1_1700000000000_k3j9x'',
                                js ''token_2_1700000000100_zz''}\<rparr>"
  have gen: "generateToken (js ''refreshed'') 1700000000500 (js ''q8w2'')
        = js ''token_refreshed_1700000000500_q8w2''"
    by (simp add: generateToken_def Number_toString_def digits.simps js_def)
  have absent: "js ''token_2_5_zz'' \<notin> validTokens ?one"
    by (simp add: js_def)
  have present: "js ''token_1_1700000000000_k3j9x'' \<in> validTokens ?two"
    by simp
  have differs: "js ''token_refreshed_1700000000500_q8w2'' \<noteq> js ''token_1_1700000000000_k3j9x''"
    by (simp add: js_def)
  have user1: "\<lparr>vu_email = js ''test@test.com'', vu_password = js ''123456'',
       vu_user = \<lparr>user_id = js ''1'', user_email = js ''test@test.com'',
                  user_name = js ''Usuario Test''\<rparr>\<rparr> \<in> set validUsers"
    by (simp add: validUsers_def)
  note thm1 = refreshToken_replaces_token [of "js ''token_2_5_zz''" ?one 1700000000500
      "js ''q8w2''"]
  note thm2 = refreshToken_replaces_token [of "js ''token_1_1700000000000_k3j9x''" ?two
      1700000000500 "js ''q8w2''"]
  from thm1 absent
  have 1: "AuthServiceImpl_refreshToken ?one (js ''token_2_5_zz'') 1700000000500 (js ''q8w2'')
             = (None, ?one)" by blast
  from thm2 present
  have 2: "AuthServiceImpl_refreshToken ?two (js ''token_1_1700000000000_k3j9x'')
                 1700000000500 (js ''q8w2'')
        = (Some (generateToken (js ''refreshed'') 1700000000500 (js ''q8w2'')),
           ?two\<lparr>validTokens := insert (generateToken (js ''refreshed'') 1700000000500
                                             (js ''q8w2''))
                                  (validTokens ?two - {js ''token_1_1700000000000_k3j9x''})\<rparr>)"
    by blast
  have set2: "insert (js ''token_refreshed_1700000000500_q8w2'')
              (validTokens ?two - {js ''token_1_1700000000000_k3j9x''})
            = {js ''token_refreshed_1700000000500_q8w2'', js ''token_2_1700000000100_zz''}"
    by (simp add: js_def)
  from 2 have refreshed: "AuthServiceImpl_refreshToken ?two (js ''token_1_1700000000000_k3j9x'')
                 1700000000500 (js ''q8w2'')
        = (Some (js ''token_refreshed_1700000000500_q8w2''),
           \<lparr>validTokens = {js ''token_refreshed_1700000000500_q8w2'',
                            js ''token_2_1700000000100_zz''}\<rparr>)"
    unfolding gen set2 [symmetric] by simp
  from thm2 present differs
  have 3: "\<not> AuthServiceImpl_validateToken
     (snd (AuthServiceImpl_refreshToken ?two (js ''token_1_1700000000000_k3j9x'')
        1700000000500 (js ''q8w2''))) (js ''token_1_1700000000000_k3j9x'')"
    unfolding gen by blast
  from thm2
  have issued: "\<forall>vu \<in> set validUsers. \<forall>timestamp' random'.
      generateToken (js ''refreshed'') 1700000000500 (js ''q8w2'')
        \<noteq> generateToken (user_id (vu_user vu)) timestamp' random'"
    by blast
  from bspec [OF issued user1]
  have 4: "generateToken (js ''refreshed'') 1700000000500 (js ''q8w2'')
     \<noteq> generateToken (js ''1'') 1700000000000 (js ''k3j9x'')"
    by simp
  from 1 refreshed 3 4 show ?thesis by blast
qed

text \<open>
  Claim C10. A call of \<open>authenticate\<close> that returns a failure, for an empty email or
  password as for a pair that matches no user, leaves the set of valid tokens as it
  was: \<open>validateToken\<close> answers for every string as before the call.
\<close>

theorem failed_authenticate_keeps_tokens:
  "fst (AuthServiceImpl_authenticate this email password timestamp random) = AuthFailure err \<Longrightarrow>
     validTokens (snd (AuthServiceImpl_authenticate this email password timestamp random))
       = validTokens this \<and>
     (\<forall>s. AuthServiceImpl_validateToken
            (snd (AuthServiceImpl_authenticate this email password timestamp random)) s
          = AuthServiceImpl_validateToken this s)"
  by (auto simp: AuthServiceImpl_authenticate_def AuthServiceImpl_validateToken_def Let_def
      split: if_splits option.splits)

theorem failed_authenticate_keeps_tokens_witness:
  "fst (AuthServiceImpl_authenticate \<lparr>validTokens = {js ''token_1_500_k3j9x''}\<rparr>
          (js ''bad@test.com'') (js ''wrong'') 900 (js ''q8w2''))
     = AuthFailure msg_invalid_credentials \<and>
   validTokens (snd (AuthServiceImpl_authenticate \<lparr>validTokens = {js ''token_1_500_k3j9x''}\<rparr>
          (js ''bad@test.com'') (js ''wrong'') 900 (js ''q8w2'')))
     = {js ''token_1_500_k3j9x''} \<and>
   AuthServiceImpl_validateToken
     (snd (AuthServiceImpl_authenticate \<lparr>validTokens = {js ''token_1_500_k3j9x''}\<rparr>
          (js ''bad@test.com'') (js ''wrong'') 900 (js ''q8w2'')))
     (js ''token_1_500_k3j9x'') \<and>
   fst (AuthServiceImpl_authenticate \<lparr>validTokens = {js ''token_1_500_k3j9x''}\<rparr>
          [] (js ''wrong'') 900 (js ''q8w2''))
     = AuthFailure msg_required \<and>
   validTokens (snd (AuthServiceImpl_authenticate \<lparr>validTokens = {js ''token_1_500_k3j9x''}\<rparr>
          [] (js ''wrong'') 900 (js ''q8w2'')))
     = {js ''token_1_500_k3j9x''}"
proof -
  let ?svc = "\<lparr>validTokens = {js ''token_1_500_k3j9x''}\<rparr>"
  have f1: "fst (AuthServiceImpl_authenticate ?svc (js ''bad@test.com'') (js ''wrong'') 900
              (js ''q8w2'')) = AuthFailure msg_invalid_credentials"
    by (simp add: AuthServiceImpl_authenticate_def findValidUser_bad) (simp add: js_def)
  have f2: "fst (AuthServiceImpl_authenticate ?svc [] (js ''wrong'') 900 (js ''q8w2''))
              = AuthFailure msg_required"
    by (simp add: AuthServiceImpl_authenticate_def)
  from failed_authenticate_keeps_tokens [OF f1] failed_authenticate_keeps_tokens [OF f2] f1 f2
  show ?thesis by (simp add: AuthServiceImpl_validateToken_def)
qed

section \<open>The session manager\<close>

lemma example_get:
  "storage_get example_storage example_store sessionKey = Some example_session"
  by (simp add: example_storage_def example_store_def InMemoryStorageService_impl_def
      InMemoryStorageService_get_def total_JSON_def table_parse_def js_def)

lemma example_restore:
  "new_SessionManager example_storage example_store (Some 1) 1000
     = \<lparr>currentSession = Some example_session, storage = example_store,
        sessionDurationMs = 3600000\<rparr>"
  by (simp add: new_SessionManager_def SessionManager_restoreSession_def example_get
      example_session_def)

text \<open>
  Claim C2. With a positive session duration, \<open>getSession\<close> right after
  \<open>startSession(u, t)\<close> returns \<open>u\<close> and \<open>t\<close>. The session held was created at the
  reading of the clock and expires one duration later: up to that expiry \<open>getSession\<close>
  returns \<open>u\<close> and \<open>t\<close>, and at every reading of the clock past it \<open>getSession\<close>
  returns \<open>null\<close>.
\<close>

theorem startSession_getSession_roundtrip:
  "0 < sessionDurationMs this \<Longrightarrow>
     SessionManager_getSession (SessionManager_startSession S this u t now) now = Some (u, t) \<and>
     currentSession (SessionManager_startSession S this u t now)
       = Some \<lparr>session_user = u, session_token = t, createdAt = now,
                expiresAt = now + sessionDurationMs this\<rparr> \<and>
     (\<forall>later. later \<le> now + sessionDurationMs this \<longrightarrow>
        SessionManager_getSession (SessionManager_startSession S this u t now) later
          = Some (u, t)) \<and>
     (\<forall>later. now + sessionDurationMs this < later \<longrightarrow>
        SessionManager_getSession (SessionManager_startSession S this u t now) later = None)"
  by (simp add: SessionManager_getSession_def SessionManager_startSession_def
      SessionManager_isExpired_def Let_def)

theorem startSession_getSession_roundtrip_witness:
  "0 < sessionDurationMs (new_SessionManager example_storage example_store (Some 1) 1000) \<and>
   SessionManager_getSession
     (SessionManager_startSession example_storage
        (new_SessionManager example_storage example_store (Some 1) 1000)
        example_user (js ''token_1_2000_q8w2'') 2000) 2000
     = Some (example_user, js ''token_1_2000_q8w2'') \<and>
   SessionManager_getSession
     (SessionManager_startSession example_storage
        (new_SessionManager example_storage example_store (Some 1) 1000)
        example_user (js ''token_1_2000_q8w2'') 2000) 3602001
     = None"
proof -
  have d: "0 < sessionDurationMs (new_SessionManager example_storage example_store (Some 1) 1000)"
    by (simp add: example_restore)
  have l: "2000 + sessionDurationMs (new_SessionManager example_storage example_store (Some 1) 1000)
             < 3602001"
    by (simp add: example_restore)
  from startSession_getSession_roundtrip [OF d, of example_storage example_user
      "js ''token_1_2000_q8w2''" 2000] d l
  show ?thesis by blast
qed

text \<open>
  The reads that check the expiry: once the clock is past \<open>expiresAt\<close>, \<open>getSession\<close> and
  \<open>getUser\<close> return \<open>null\<close>, \<open>isActive\<close> is false and \<open>getTimeRemaining\<close> is zero.
\<close>

lemma expired_reads_report_no_session:
  "currentSession this = Some session \<Longrightarrow> expiresAt session < now \<Longrightarrow>
     SessionManager_getSession this now = None \<and>
     SessionManager_getUser this now = None \<and>
     \<not> SessionManager_isActive this now \<and>
     SessionManager_getTimeRemaining this now = 0"
  by (simp add: SessionManager_getSession_def SessionManager_getUser_def
      SessionManager_isActive_def SessionManager_getTimeRemaining_def
      SessionManager_isExpired_def Let_def)

text \<open>
  Claim C5. Every read of the manager reports no session once the session held has
  expired. \<open>getToken\<close> does not: it never looks at the clock. A session of one hour
  started at time 0 is read at time 3600001: the other four reads report no session,
  \<open>getToken\<close> still returns the token.
\<close>

theorem getToken_exposes_expired_session:
  "SessionManager_getSession
     (SessionManager_startSession example_storage
        (new_SessionManager example_storage new_InMemoryStorageService (Some 1) 0)
        example_user (js ''token_1_0_k3j9x'') 0) 3600001 = None \<and>
   SessionManager_getUser
     (SessionManager_startSession example_storage
        (new_SessionManager example_storage new_InMemoryStorageService (Some 1) 0)
        example_user (js ''token_1_0_k3j9x'') 0) 3600001 = None \<and>
   SessionManager_isActive
     (SessionManager_startSession example_storage
        (new_SessionManager example_storage new_InMemoryStorageService (Some 1) 0)
        example_user (js ''token_1_0_k3j9x'') 0) 3600001 = False \<and>
   SessionManager_getTimeRemaining
     (SessionManager_startSession example_storage
        (new_SessionManager example_storage new_InMemoryStorageService (Some 1) 0)
        example_user (js ''token_1_0_k3j9x'') 0) 3600001 = 0 \<and>
   SessionManager_getToken
     (SessionManager_startSession example_storage
        (new_SessionManager example_storage new_InMemoryStorageService (Some 1) 0)
        example_user (js ''token_1_0_k3j9x'') 0) = Some (js ''token_1_0_k3j9x'')"
  by (simp add: SessionManager_getSession_def SessionManager_getUser_def
      SessionManager_isActive_def SessionManager_getTimeRemaining_def SessionManager_getToken_def
      SessionManager_isExpired_def SessionManager_startSession_def new_SessionManager_def
      SessionManager_restoreSession_def example_storage_def InMemoryStorageService_impl_def
      InMemoryStorageService_get_def total_JSON_def new_InMemoryStorageService_def Let_def)





section \<open>The storage services\<close>

text \<open>
  The loop of \<open>clear\<close> collects, in order, the keys from index \<open>i\<close> on that start with
  the prefix; removing a list of keys keeps the items whose key is not in the list.
\<close>

lemma clear_collect_eq:
  "clear_collect this ls i acc =
     acc @ filter (\<lambda>k. startsWith k (prefix this)) (map fst (drop i (items ls)))"
proof (induction this ls i acc rule: clear_collect.induct)
  case (1 this ls i keysToRemove)
  show ?case
  proof (cases "i < localStorage_length ls")
    case True
    then have lt: "i < length (items ls)" by (simp add: localStorage_length_def)
    then have d: "drop i (items ls) = items ls ! i # drop (Suc i) (items ls)"
      by (simp add: Cons_nth_drop_Suc)
    from True 1 have "clear_collect this ls i keysToRemove =
       (case localStorage_key ls i of
             Some key \<Rightarrow>
               if startsWith key (prefix this) then keysToRemove @ [key] else keysToRemove
           | None \<Rightarrow> keysToRemove)
        @ filter (\<lambda>k. startsWith k (prefix this)) (map fst (drop (i + 1) (items ls)))"
      by (subst clear_collect.simps) simp
    with lt d show ?thesis by (simp add: localStorage_key_def)
  next
    case False
    then show ?thesis
      by (subst clear_collect.simps) (simp add: localStorage_length_def)
  qed
qed

lemma foldl_removeItem:
  "foldl localStorage_removeItem ls ks = ls\<lparr>items := filter (\<lambda>p. fst p \<notin> set ks) (items ls)\<rparr>"
proof (induction ks arbitrary: ls)
  case Nil
  then show ?case by simp
next
  case (Cons k ks)
  have "filter (\<lambda>p. fst p \<notin> set ks) (AList.delete k (items ls))
      = filter (\<lambda>p. fst p \<notin> set (k # ks)) (items ls)"
    by (auto simp: AList.delete_eq intro: filter_cong)
  with Cons show ?case by (simp add: localStorage_removeItem_def)
qed

lemma items_clear:
  "items (LocalStorageService_clear this ls)
     = filter (\<lambda>p. \<not> startsWith (fst p) (prefix this)) (items ls)"
  unfolding LocalStorageService_clear_def foldl_removeItem clear_collect_eq
  by (auto intro: filter_cong)

lemma map_of_filter_fst:
  "map_of (filter (\<lambda>p. Q (fst p)) xs) k = (if Q k then map_of xs k else None)"
  by (induction xs) auto

lemma getItem_clear:
  "localStorage_getItem (LocalStorageService_clear this ls) k
     = (if startsWith k (prefix this) then None else localStorage_getItem ls k)"
  unfolding localStorage_getItem_def items_clear
  using map_of_filter_fst [of "\<lambda>k. \<not> startsWith k (prefix this)" "items ls" k] by simp

lemma startsWith_buildKey: "startsWith (buildKey this key) (prefix this)"
  by (simp add: startsWith_def buildKey_def)

lemma get_after_clear_local:
  "LocalStorageService_get J this (LocalStorageService_clear this ls) key = None"
  by (simp add: LocalStorageService_get_def getItem_clear startsWith_buildKey)

lemma get_after_clear_mem:
  "InMemoryStorageService_get J (InMemoryStorageService_clear mem) key = None"
  by (simp add: InMemoryStorageService_get_def InMemoryStorageService_clear_def)

text \<open>What \<open>set\<close> does, case by case, and what \<open>get\<close> reads afterwards.\<close>

lemma local_set_throws:
  "stringify J v = Inl error \<Longrightarrow> LocalStorageService_set J this ls key v = ls"
  by (simp add: LocalStorageService_set_def)

lemma local_set_refused:
  "stringify J v = Inr serialized \<Longrightarrow>
   quota ls < stored_size (AList.update (buildKey this key) serialized (items ls)) \<Longrightarrow>
     LocalStorageService_set J this ls key v = ls"
  by (simp add: LocalStorageService_set_def localStorage_setItem_def Let_def)

lemma local_set_accepted:
  "stringify J v = Inr serialized \<Longrightarrow>
   stored_size (AList.update (buildKey this key) serialized (items ls)) \<le> quota ls \<Longrightarrow>
     LocalStorageService_set J this ls key v
       = ls\<lparr>items := AList.update (buildKey this key) serialized (items ls)\<rparr>"
  by (simp add: LocalStorageService_set_def localStorage_setItem_def Let_def)

lemma mem_set_throws:
  "stringify J v = Inl error \<Longrightarrow> InMemoryStorageService_set J mem key v = Inl error"
  by (simp add: InMemoryStorageService_set_def)

lemma mem_set_returns:
  "stringify J v = Inr serialized \<Longrightarrow>
     InMemoryStorageService_set J mem key v
       = Inr (mem\<lparr>mem_storage := (mem_storage mem)(key \<mapsto> serialized)\<rparr>)"
  by (simp add: InMemoryStorageService_set_def)

lemma local_get_after_update:
  "LocalStorageService_get J this
     (ls\<lparr>items := AList.update (buildKey this key) serialized (items ls)\<rparr>) k
   = (if k = key then (case parse J serialized of Inr r \<Rightarrow> r | Inl error \<Rightarrow> None)
      else LocalStorageService_get J this ls k)"
  by (simp add: LocalStorageService_get_def localStorage_getItem_def update_conv' buildKey_def)

lemma mem_get_after_update:
  "InMemoryStorageService_get J (mem\<lparr>mem_storage := (mem_storage mem)(key \<mapsto> serialized)\<rparr>) k
   = (if k = key
      then (if serialized = [] then None
            else (case parse J serialized of Inr r \<Rightarrow> r | Inl error \<Rightarrow> None))
      else InMemoryStorageService_get J mem k)"
  by (simp add: InMemoryStorageService_get_def)

lemma impl_set_returns:
  "storage_set (InMemoryStorageService_impl serialize p) mem key v
     = mem\<lparr>mem_storage := (mem_storage mem)(key \<mapsto> serialize v)\<rparr>"
  by (simp add: InMemoryStorageService_impl_def InMemoryStorageService_set_def total_JSON_def)

lemma value_JSON_text:
  "stringify value_JSON (Text s) = Inr (quoted s)"
  "stringify value_JSON Cyclic = Inl (ErrorObject (js ''TypeError''))"
  "parse value_JSON (quoted s) = Inr (Some (Text s))"
  by (simp_all add: value_JSON_def quoted_def)

lemma quoted_nonempty: "quoted s \<noteq> []"
  by (simp add: quoted_def)

lemma demo_buildKey:
  "buildKey (new_LocalStorageService (Some (js ''poo_demo_''))) (js ''lang'') = js ''poo_demo_lang''"
  by (simp add: buildKey_def new_LocalStorageService_def js_def)

text \<open>
  Claim C6, as stated: both services have the same read-after-write semantics. Two
  services that read \<open>null\<close> for the key \<open>lang\<close> are given the same \<open>set\<close>. The
  \<open>localStorage\<close> is nearly full and refuses the write, which \<open>LocalStorageService\<close>
  only logs: it still reads \<open>null\<close>, \<open>InMemoryStorageService\<close> reads the value. On a
  value that \<open>JSON.stringify\<close> cannot serialize, \<open>set\<close> of \<open>LocalStorageService\<close>
  returns with the store as it was and \<open>set\<close> of \<open>InMemoryStorageService\<close> throws. As to
  \<open>clear\<close>: \<open>LocalStorageService\<close> keeps the key \<open>theme\<close>, which does not start with its
  prefix, and \<open>InMemoryStorageService\<close>, which has no prefix, removes \<open>theme\<close> with every
  other key of its map.
\<close>

theorem storage_write_counterexample:
  "LocalStorageService_get value_JSON (new_LocalStorageService (Some (js ''poo_demo_'')))
     full_localStorage (js ''lang'') = None \<and>
   InMemoryStorageService_get value_JSON new_InMemoryStorageService (js ''lang'') = None \<and>
   LocalStorageService_get value_JSON (new_LocalStorageService (Some (js ''poo_demo_'')))
     (LocalStorageService_set value_JSON (new_LocalStorageService (Some (js ''poo_demo_'')))
        full_localStorage (js ''lang'') (Text (js ''es''))) (js ''lang'') = None \<and>
   InMemoryStorageService_set value_JSON new_InMemoryStorageService (js ''lang'')
       (Text (js ''es''))
     = Inr \<lparr>mem_storage = [js ''lang'' \<mapsto> quoted (js ''es'')]\<rparr> \<and>
   InMemoryStorageService_get value_JSON
     \<lparr>mem_storage = [js ''lang'' \<mapsto> quoted (js ''es'')]\<rparr> (js ''lang'')
     = Some (Text (js ''es'')) \<and>
   LocalStorageService_set value_JSON (new_LocalStorageService (Some (js ''poo_demo_'')))
       full_localStorage (js ''lang'') Cyclic = full_localStorage \<and>
   InMemoryStorageService_set value_JSON new_InMemoryStorageService (js ''lang'') Cyclic
     = Inl (ErrorObject (js ''TypeError'')) \<and>
   localStorage_getItem
     (LocalStorageService_clear (new_LocalStorageService (Some (js ''poo_demo_'')))
        example_localStorage) (js ''theme'') = Some (js ''dark'') \<and>
   mem_storage
     (InMemoryStorageService_clear
        \<lparr>mem_storage = [js ''poo_demo_lang'' \<mapsto> js ''en'', js ''theme'' \<mapsto> js ''dark'']\<rparr>)
     (js ''theme'') = None"
proof -
  let ?svc = "new_LocalStorageService (Some (js ''poo_demo_''))"
  have kept: "localStorage_getItem (LocalStorageService_clear ?svc example_localStorage)
      (js ''theme'') = Some (js ''dark'')"
    by (simp add: getItem_clear new_LocalStorageService_def)
       (simp add: startsWith_def localStorage_getItem_def example_localStorage_def js_def)
  have removed: "mem_storage
     (InMemoryStorageService_clear
        \<lparr>mem_storage = [js ''poo_demo_lang'' \<mapsto> js ''en'', js ''theme'' \<mapsto> js ''dark'']\<rparr>)
     (js ''theme'') = None"
    by (simp add: InMemoryStorageService_clear_def)
  have before: "LocalStorageService_get value_JSON ?svc full_localStorage (js ''lang'') = None"
    by (simp add: LocalStorageService_get_def localStorage_getItem_def demo_buildKey
        full_localStorage_def) (simp add: js_def)
  have before_mem:
    "InMemoryStorageService_get value_JSON new_InMemoryStorageService (js ''lang'') = None"
    by (simp add: InMemoryStorageService_get_def new_InMemoryStorageService_def)
  have over: "quota full_localStorage
      < stored_size (AList.update (buildKey ?svc (js ''lang'')) (quoted (js ''es''))
          (items full_localStorage))"
    by (simp add: demo_buildKey) (simp add: full_localStorage_def stored_size_def quoted_def js_def)
  have refused: "LocalStorageService_set value_JSON ?svc full_localStorage (js ''lang'')
      (Text (js ''es'')) = full_localStorage"
    by (rule local_set_refused [OF value_JSON_text(1) over])
  have stored: "InMemoryStorageService_set value_JSON new_InMemoryStorageService (js ''lang'')
       (Text (js ''es''))
     = Inr \<lparr>mem_storage = [js ''lang'' \<mapsto> quoted (js ''es'')]\<rparr>"
    by (simp add: mem_set_returns [OF value_JSON_text(1)] new_InMemoryStorageService_def)
  have read: "InMemoryStorageService_get value_JSON
     \<lparr>mem_storage = [js ''lang'' \<mapsto> quoted (js ''es'')]\<rparr> (js ''lang'')
     = Some (Text (js ''es''))"
    by (simp add: InMemoryStorageService_get_def value_JSON_text(3) quoted_nonempty)
  have swallowed: "LocalStorageService_set value_JSON ?svc full_localStorage (js ''lang'') Cyclic
      = full_localStorage"
    by (rule local_set_throws [OF value_JSON_text(2)])
  have thrown: "InMemoryStorageService_set value_JSON new_InMemoryStorageService (js ''lang'')
      Cyclic = Inl (ErrorObject (js ''TypeError''))"
    by (rule mem_set_throws [OF value_JSON_text(2)])
  from before before_mem refused stored read swallowed thrown kept removed
  show ?thesis by simp
qed

text \<open>
  Claim C6, amended. \<open>clear\<close> of \<open>LocalStorageService\<close> removes from the shared store
  exactly the items whose key starts with the prefix of the service, keeping the others
  with their values and their order. \<open>InMemoryStorageService\<close> has no prefix and owns its
  map, and its \<open>clear\<close> removes every key of the map. After \<open>clear\<close> every \<open>get\<close> of
  either service reads \<open>null\<close>. The two differ on \<open>set\<close>. When \<open>JSON.stringify\<close>
  throws, \<open>LocalStorageService\<close> returns with the store as it was and
  \<open>InMemoryStorageService\<close> throws. When \<open>localStorage\<close> refuses the write,
  \<open>LocalStorageService\<close> returns with the store as it was, while
  \<open>InMemoryStorageService\<close> stores the text. When \<open>localStorage\<close> admits the write,
  both store the text under the key; if the text is not empty, \<open>get\<close> of the key then
  reads from both what \<open>JSON.parse\<close> makes of the text, and two services that answered
  every \<open>get\<close> alike before the \<open>set\<close> answer every \<open>get\<close> alike after it.
\<close>

theorem storage_clear_and_write:
  "items (LocalStorageService_clear this ls)
     = filter (\<lambda>item. \<not> startsWith (fst item) (prefix this)) (items ls) \<and>
   (\<forall>k. localStorage_getItem (LocalStorageService_clear this ls) k
          = (if startsWith k (prefix this) then None else localStorage_getItem ls k)) \<and>
   InMemoryStorageService_clear mem = \<lparr>mem_storage = Map.empty\<rparr> \<and>
   (\<forall>k. LocalStorageService_get J this (LocalStorageService_clear this ls) k = None \<and>
        InMemoryStorageService_get J (InMemoryStorageService_clear mem) k = None) \<and>
   (\<forall>error. stringify J v = Inl error \<longrightarrow>
      LocalStorageService_set J this ls key v = ls \<and>
      InMemoryStorageService_set J mem key v = Inl error) \<and>
   (\<forall>serialized. stringify J v = Inr serialized \<longrightarrow>
      InMemoryStorageService_set J mem key v
        = Inr (mem\<lparr>mem_storage := (mem_storage mem)(key \<mapsto> serialized)\<rparr>) \<and>
      (quota ls < stored_size (AList.update (buildKey this key) serialized (items ls)) \<longrightarrow>
         LocalStorageService_set J this ls key v = ls) \<and>
      (stored_size (AList.update (buildKey this key) serialized (items ls)) \<le> quota ls \<longrightarrow>
         LocalStorageService_set J this ls key v
           = ls\<lparr>items := AList.update (buildKey this key) serialized (items ls)\<rparr> \<and>
         (serialized \<noteq> [] \<longrightarrow>
            (\<forall>r. parse J serialized = Inr r \<longrightarrow>
               LocalStorageService_get J this (LocalStorageService_set J this ls key v) key = r \<and>
               InMemoryStorageService_get J
                 (mem\<lparr>mem_storage := (mem_storage mem)(key \<mapsto> serialized)\<rparr>) key = r) \<and>
            ((\<forall>k. LocalStorageService_get J this ls k = InMemoryStorageService_get J mem k)
             \<longrightarrow>
             (\<forall>k. LocalStorageService_get J this (LocalStorageService_set J this ls key v) k
                   = InMemoryStorageService_get J
                       (mem\<lparr>mem_storage := (mem_storage mem)(key \<mapsto> serialized)\<rparr>) k)))))"
proof (intro conjI allI impI)
  show "items (LocalStorageService_clear this ls)
     = filter (\<lambda>item. \<not> startsWith (fst item) (prefix this)) (items ls)"
    by (rule items_clear)
  show "\<And>k. localStorage_getItem (LocalStorageService_clear this ls) k
          = (if startsWith k (prefix this) then None else localStorage_getItem ls k)"
    by (rule getItem_clear)
  show "InMemoryStorageService_clear mem = \<lparr>mem_storage = Map.empty\<rparr>"
    by (simp add: InMemoryStorageService_clear_def)
  show "\<And>k. LocalStorageService_get J this (LocalStorageService_clear this ls) k = None"
    by (rule get_after_clear_local)
  show "\<And>k. InMemoryStorageService_get J (InMemoryStorageService_clear mem) k = None"
    by (rule get_after_clear_mem)
next
  fix error assume "stringify J v = Inl error"
  then show "LocalStorageService_set J this ls key v = ls"
    and "InMemoryStorageService_set J mem key v = Inl error"
    by (simp_all add: local_set_throws mem_set_throws)
next
  fix serialized assume "stringify J v = Inr serialized"
  then show "InMemoryStorageService_set J mem key v
        = Inr (mem\<lparr>mem_storage := (mem_storage mem)(key \<mapsto> serialized)\<rparr>)"
    by (rule mem_set_returns)
next
  fix serialized
  assume "stringify J v = Inr serialized"
    and "quota ls < stored_size (AList.update (buildKey this key) serialized (items ls))"
  then show "LocalStorageService_set J this ls key v = ls"
    by (rule local_set_refused)
next
  fix serialized
  assume "stringify J v = Inr serialized"
    and "stored_size (AList.update (buildKey this key) serialized (items ls)) \<le> quota ls"
  then show "LocalStorageService_set J this ls key v
           = ls\<lparr>items := AList.update (buildKey this key) serialized (items ls)\<rparr>"
    by (rule local_set_accepted)
next
  fix serialized r
  assume s: "stringify J v = Inr serialized"
    and q: "stored_size (AList.update (buildKey this key) serialized (items ls)) \<le> quota ls"
    and ne: "serialized \<noteq> []" and p: "parse J serialized = Inr r"
  from p show "LocalStorageService_get J this (LocalStorageService_set J this ls key v) key = r"
    by (simp add: local_set_accepted [OF s q] local_get_after_update)
  from ne p show "InMemoryStorageService_get J
                 (mem\<lparr>mem_storage := (mem_storage mem)(key \<mapsto> serialized)\<rparr>) key = r"
    by (simp add: mem_get_after_update)
next
  fix serialized k
  assume s: "stringify J v = Inr serialized"
    and q: "stored_size (AList.update (buildKey this key) serialized (items ls)) \<le> quota ls"
    and ne: "serialized \<noteq> []"
    and agree: "\<forall>k. LocalStorageService_get J this ls k = InMemoryStorageService_get J mem k"
  from ne agree show "LocalStorageService_get J this (LocalStorageService_set J this ls key v) k
                   = InMemoryStorageService_get J
                       (mem\<lparr>mem_storage := (mem_storage mem)(key \<mapsto> serialized)\<rparr>) k"
    by (simp add: local_set_accepted [OF s q] local_get_after_update mem_get_after_update)
qed

theorem storage_clear_and_write_witness:
  "items (LocalStorageService_clear (new_LocalStorageService (Some (js ''poo_demo_'')))
            example_localStorage)
     = [(js ''theme'', js ''dark''), (js ''other_app_session'', js ''{}'')] \<and>
   localStorage_getItem
     (LocalStorageService_clear (new_LocalStorageService (Some (js ''poo_demo_'')))
        example_localStorage) (js ''other_app_session'') = Some (js ''{}'') \<and>
   localStorage_getItem
     (LocalStorageService_clear (new_LocalStorageService (Some (js ''poo_demo_'')))
        example_localStorage) (js ''poo_demo_lang'') = None \<and>
   InMemoryStorageService_clear example_store = \<lparr>mem_storage = Map.empty\<rparr> \<and>
   LocalStorageService_set value_JSON (new_LocalStorageService (Some (js ''poo_demo_'')))
       example_localStorage (js ''lang'') (Text (js ''es''))
     = example_localStorage
         \<lparr>items := AList.update (js ''poo_demo_lang'') (quoted (js ''es''))
                     (items example_localStorage)\<rparr> \<and>
   LocalStorageService_get value_JSON (new_LocalStorageService (Some (js ''poo_demo_'')))
     (LocalStorageService_set value_JSON (new_LocalStorageService (Some (js ''poo_demo_'')))
        example_localStorage (js ''lang'') (Text (js ''es''))) (js ''lang'')
     = Some (Text (js ''es'')) \<and>
   InMemoryStorageService_set value_JSON new_InMemoryStorageService (js ''lang'')
       (Text (js ''es''))
     = Inr (new_InMemoryStorageService
             \<lparr>mem_storage := (mem_storage new_InMemoryStorageService)
                               (js ''lang'' \<mapsto> quoted (js ''es''))\<rparr>) \<and>
   InMemoryStorageService_get value_JSON
     (new_InMemoryStorageService
        \<lparr>mem_storage := (mem_storage new_InMemoryStorageService)
                          (js ''lang'' \<mapsto> quoted (js ''es''))\<rparr>) (js ''lang'')
     = Some (Text (js ''es''))"
proof -
  let ?svc = "new_LocalStorageService (Some (js ''poo_demo_''))"
  let ?quoted = "quoted (js ''es'')"
  have p: "prefix ?svc = js ''poo_demo_''"
    by (simp add: new_LocalStorageService_def)
  have fits: "stored_size (AList.update (buildKey ?svc (js ''lang'')) ?quoted
                (items example_localStorage)) \<le> quota example_localStorage"
    by (simp add: demo_buildKey)
       (simp add: example_localStorage_def stored_size_def quoted_def js_def)
  have ne: "?quoted \<noteq> []" by (rule quoted_nonempty)
  note inst = storage_clear_and_write [of ?svc example_localStorage example_store value_JSON
      "Text (js ''es'')" "js ''lang''"]
  note inst' = storage_clear_and_write [of ?svc example_localStorage new_InMemoryStorageService
      value_JSON "Text (js ''es'')" "js ''lang''"]
  from inst
  have cl: "items (LocalStorageService_clear ?svc example_localStorage)
         = filter (\<lambda>item. \<not> startsWith (fst item) (prefix ?svc)) (items example_localStorage)"
    and gi: "\<And>k. localStorage_getItem (LocalStorageService_clear ?svc example_localStorage) k
          = (if startsWith k (prefix ?svc) then None
             else localStorage_getItem example_localStorage k)"
    and 4: "InMemoryStorageService_clear example_store = \<lparr>mem_storage = Map.empty\<rparr>"
    by blast+
  have 1: "items (LocalStorageService_clear ?svc example_localStorage)
     = [(js ''theme'', js ''dark''), (js ''other_app_session'', js ''{}'')]"
    unfolding cl p by (simp add: example_localStorage_def startsWith_def js_def)
  have 2: "localStorage_getItem (LocalStorageService_clear ?svc example_localStorage)
             (js ''other_app_session'') = Some (js ''{}'')"
    unfolding gi p
    by (simp add: example_localStorage_def startsWith_def localStorage_getItem_def js_def)
  have 3: "localStorage_getItem (LocalStorageService_clear ?svc example_localStorage)
             (js ''poo_demo_lang'') = None"
    unfolding gi p by (simp add: startsWith_def js_def)
  from inst' value_JSON_text(1) fits
  have 5: "LocalStorageService_set value_JSON ?svc example_localStorage (js ''lang'')
             (Text (js ''es''))
           = example_localStorage
               \<lparr>items := AList.update (buildKey ?svc (js ''lang'')) ?quoted
                           (items example_localStorage)\<rparr>"
    by blast
  from inst' value_JSON_text(1) fits ne value_JSON_text(3)
  have 6: "LocalStorageService_get value_JSON ?svc
             (LocalStorageService_set value_JSON ?svc example_localStorage (js ''lang'')
                (Text (js ''es''))) (js ''lang'') = Some (Text (js ''es''))"
    and 8: "InMemoryStorageService_get value_JSON
             (new_InMemoryStorageService
                \<lparr>mem_storage := (mem_storage new_InMemoryStorageService)
                                  (js ''lang'' \<mapsto> ?quoted)\<rparr>) (js ''lang'')
             = Some (Text (js ''es''))"
    by blast+
  from inst' value_JSON_text(1)
  have 7: "InMemoryStorageService_set value_JSON new_InMemoryStorageService (js ''lang'')
             (Text (js ''es''))
           = Inr (new_InMemoryStorageService
                   \<lparr>mem_storage := (mem_storage new_InMemoryStorageService)
                                     (js ''lang'' \<mapsto> ?quoted)\<rparr>)"
    by blast
  from 1 2 3 4 5 6 7 8 show ?thesis unfolding demo_buildKey by blast
qed

section \<open>The login use case\<close>

text \<open>
  The regular expression of \<open>validateInput\<close>, read as a pattern: a non-empty local part,
  \<open>@\<close>, a non-empty part, a dot and a non-empty part, none with white space or \<open>@\<close>.
\<close>

lemma notSpaceOrAt_dot: "notSpaceOrAt 0x2E"
  by (simp add: notSpaceOrAt_def isWhiteSpace_def)

lemma notSpaceOrAt_at: "\<not> notSpaceOrAt 0x40"
  by (simp add: notSpaceOrAt_def)

lemma emailRegex_test_iff:
  "emailRegex_test s \<longleftrightarrow>
     (\<exists>a b c. s = a @ [0x40] @ b @ [0x2E] @ c \<and> a \<noteq> [] \<and> b \<noteq> [] \<and> c \<noteq> [] \<and>
        list_all notSpaceOrAt a \<and> list_all notSpaceOrAt b \<and> list_all notSpaceOrAt c)"
  (is "?L \<longleftrightarrow> ?R")
proof
  assume ?L
  define a where "a = takeWhile notSpaceOrAt s"
  define rest where "rest = dropWhile notSpaceOrAt s"
  from \<open>?L\<close> obtain dom where a_ne: "a \<noteq> []" and rest: "rest = 0x40 # dom"
    and dom_all: "list_all notSpaceOrAt dom" and dot: "0x2E \<in> set (butlast (tl dom))"
    unfolding emailRegex_test_def Let_def a_def rest_def
    by (cases "dropWhile notSpaceOrAt s") auto
  from dot obtain xs ys where split: "butlast (tl dom) = xs @ [0x2E] @ ys"
    by (auto dest: split_list)
  then have tl_ne: "tl dom \<noteq> []" by auto
  then have dom_ne: "dom \<noteq> []" by auto
  have dom_eq: "dom = (hd dom # xs) @ [0x2E] @ (ys @ [last (tl dom)])"
  proof -
    have "tl dom = butlast (tl dom) @ [last (tl dom)]" using tl_ne by simp
    then have "tl dom = xs @ [0x2E] @ ys @ [last (tl dom)]" using split by simp
    moreover have "dom = hd dom # tl dom" using dom_ne by simp
    ultimately show ?thesis by simp
  qed
  have s_eq: "s = a @ rest" by (simp add: a_def rest_def)
  have a_all: "list_all notSpaceOrAt a"
    by (auto simp: a_def list_all_iff dest: set_takeWhileD)
  from dom_all dom_eq have "list_all notSpaceOrAt (hd dom # xs)"
    and "list_all notSpaceOrAt (ys @ [last (tl dom)])"
    by (metis list_all_append)+
  with s_eq rest dom_eq a_ne a_all show ?R
    by (intro exI [of _ a] exI [of _ "hd dom # xs"] exI [of _ "ys @ [last (tl dom)]"]) auto
next
  assume ?R
  then obtain a b c where s: "s = a @ [0x40] @ b @ [0x2E] @ c"
    and ne: "a \<noteq> []" "b \<noteq> []" "c \<noteq> []"
    and all: "list_all notSpaceOrAt a" "list_all notSpaceOrAt b" "list_all notSpaceOrAt c"
    by blast
  have tw: "takeWhile notSpaceOrAt s = a"
    using all(1) by (simp add: s takeWhile_append2 list_all_iff notSpaceOrAt_at)
  have dw: "dropWhile notSpaceOrAt s = 0x40 # (b @ [0x2E] @ c)"
    using all(1) by (simp add: s dropWhile_append2 list_all_iff notSpaceOrAt_at)
  obtain b0 b' where b: "b = b0 # b'" using ne(2) by (cases b) auto
  have "0x2E \<in> set (butlast (tl (b @ [0x2E] @ c)))"
    using ne(3) by (simp add: b butlast_append)
  with tw dw ne all show ?L
    by (simp add: emailRegex_test_def Let_def notSpaceOrAt_dot)
qed

lemma enter_pending_isLoading:
  "LoginUserUseCase_execute_enter this email password = (AwaitAuthenticate e p, pending) \<Longrightarrow>
     isLoading pending"
  by (auto simp: LoginUserUseCase_execute_enter_def Let_def split: if_splits option.splits)

lemma enter_while_loading:
  "isLoading this \<Longrightarrow>
     LoginUserUseCase_execute_enter this email password
       = (Return (LoginFailure msg_in_progress), this)"
  by (simp add: LoginUserUseCase_execute_enter_def)

lemma enter_idle_valid:
  "\<not> isLoading this \<Longrightarrow> validateInput email password = None \<Longrightarrow>
     LoginUserUseCase_execute_enter this email password
       = (AwaitAuthenticate email password, this\<lparr>isLoading := True\<rparr>)"
  by (simp add: LoginUserUseCase_execute_enter_def)

lemma enter_idle_invalid:
  "\<not> isLoading this \<Longrightarrow> validateInput email password = Some err \<Longrightarrow>
     LoginUserUseCase_execute_enter this email password
       = (Return (LoginFailure err), this\<lparr>isLoading := False\<rparr>)"
  by (simp add: LoginUserUseCase_execute_enter_def)

lemma resume_isLoading:
  "isLoading (snd (LoginUserUseCase_execute_resume SS this settled)) = False"
  by (simp add: LoginUserUseCase_execute_resume_def split: prod.splits sum.splits)

lemma resume_returns:
  "\<exists>r. fst (LoginUserUseCase_execute_resume SS this settled) = Inr r"
  by (simp add: LoginUserUseCase_execute_resume_def split: prod.splits sum.splits)

lemma enter_return_isLoading:
  "\<not> isLoading this \<Longrightarrow>
   LoginUserUseCase_execute_enter this email password = (Return r, this') \<Longrightarrow> \<not> isLoading this'"
  by (auto simp: LoginUserUseCase_execute_enter_def Let_def split: if_splits option.splits)

lemma execute_returns:
  "\<exists>r. fst (LoginUserUseCase_execute AS SS this email password) = Inr r"
  by (auto simp: LoginUserUseCase_execute_def resume_returns split: prod.splits execute_step.splits)

lemma execute_isLoading:
  "\<not> isLoading this \<Longrightarrow>
     isLoading (snd (LoginUserUseCase_execute AS SS this email password)) = False"
  by (auto simp: LoginUserUseCase_execute_def resume_isLoading
      split: prod.splits execute_step.splits dest: enter_return_isLoading)

lemma resume_rejected:
  "fst (LoginUserUseCase_execute_resume SS this (Inl error)) = Inr (execute_catch error)"
  by (simp add: LoginUserUseCase_execute_resume_def execute_try_def)

lemma resume_startSession_throws:
  "fst (startSession SS (sessionService this) u t) = Inl error \<Longrightarrow>
   fst (LoginUserUseCase_execute_resume SS this (Inr (AuthSuccess u t))) = Inr (execute_catch error)"
  by (auto simp: LoginUserUseCase_execute_resume_def execute_try_def split: prod.splits sum.splits)

lemma execute_authenticate_throws:
  "\<not> isLoading this \<Longrightarrow> validateInput email password = None \<Longrightarrow>
   fst (authenticate AS (authService this) email password) = Inl error \<Longrightarrow>
     fst (LoginUserUseCase_execute AS SS this email password) = Inr (execute_catch error)"
  by (auto simp: LoginUserUseCase_execute_def enter_idle_valid resume_rejected split: prod.splits)

lemma execute_startSession_throws:
  "\<not> isLoading this \<Longrightarrow> validateInput email password = None \<Longrightarrow>
   fst (authenticate AS (authService this) email password) = Inr (AuthSuccess u t) \<Longrightarrow>
   fst (startSession SS (sessionService this) u t) = Inl error \<Longrightarrow>
     fst (LoginUserUseCase_execute AS SS this email password) = Inr (execute_catch error)"
  by (auto simp: LoginUserUseCase_execute_def enter_idle_valid resume_startSession_throws
      split: prod.splits)

lemma catch_message:
  "execute_catch (ErrorObject m) = LoginFailure m"
  "execute_catch OtherValue = LoginFailure (js ''Error desconocido durante el login'')"
  by (simp_all add: execute_catch_def msg_unknown_def)

lemma logout_isLoading:
  "isLoading (snd (LoginUserUseCase_logout SS this)) = isLoading this"
  by (simp add: LoginUserUseCase_logout_def split: prod.splits sum.splits)

lemma logout_result:
  "fst (LoginUserUseCase_logout SS this)
     = Inr \<lparr>success = (case fst (endSession SS (sessionService this)) of
                          Inl error \<Rightarrow> False | Inr _ \<Rightarrow> True)\<rparr>"
  by (simp add: LoginUserUseCase_logout_def split: prod.splits sum.splits)

lemma validate_test: "validateInput (js ''test@test.com'') (js ''123456'') = None"
  by (simp add: validateInput_def trim_def emailRegex_test_def notSpaceOrAt_def
      isWhiteSpace_def js_def)

lemma validate_bad: "validateInput (js ''bad@test.com'') (js ''wrong'') = None"
  by (simp add: validateInput_def trim_def emailRegex_test_def notSpaceOrAt_def
      isWhiteSpace_def js_def)

lemma validate_blank: "validateInput (js ''  '') (js ''123456'') = Some msg_email_required"
  by (simp add: validateInput_def trim_def isWhiteSpace_def js_def)

lemma auth_test:
  "authenticate (AuthServiceImpl_impl 500 (js ''k3j9x'')) new_AuthServiceImpl
       (js ''test@test.com'') (js ''123456'')
     = (Inr (AuthSuccess example_user (js ''token_1_500_k3j9x'')),
        \<lparr>validTokens = {js ''token_1_500_k3j9x''}\<rparr>)"
  by (simp add: AuthServiceImpl_impl_def AuthServiceImpl_authenticate_def findValidUser_def
      validUsers_def generateToken_def Number_toString_def digits.simps example_user_def
      new_AuthServiceImpl_def Let_def js_def)

lemma auth_bad:
  "authenticate (AuthServiceImpl_impl 500 (js ''k3j9x'')) new_AuthServiceImpl
       (js ''bad@test.com'') (js ''wrong'')
     = (Inr (AuthFailure msg_invalid_credentials), new_AuthServiceImpl)"
  by (simp add: AuthServiceImpl_impl_def AuthServiceImpl_authenticate_def findValidUser_def
      validUsers_def js_def)

text \<open>
  Claim C3, as stated: a call of \<open>execute\<close> that arrives while another is waiting for
  the authenticator returns \<open>{success: false, error: login in progress}\<close>. The first call
  below is suspended on \<open>authenticate\<close>; the second returns another message.
\<close>

theorem overlapping_execute_message_counterexample:
  "LoginUserUseCase_execute_enter (new_LoginUserUseCase new_AuthServiceImpl ())
       (js ''test@test.com'') (js ''123456'')
     = (AwaitAuthenticate (js ''test@test.com'') (js ''123456''),
        \<lparr>authService = new_AuthServiceImpl, sessionService = (), isLoading = True\<rparr>) \<and>
   fst (LoginUserUseCase_execute_enter
          \<lparr>authService = new_AuthServiceImpl, sessionService = (), isLoading = True\<rparr>
          (js ''test@test.com'') (js ''123456''))
     \<noteq> Return (LoginFailure (js ''login in progress''))"
  by (simp add: enter_idle_valid validate_test new_LoginUserUseCase_def enter_while_loading
      msg_in_progress_def) (simp add: js_def)

text \<open>
  Claim C3, amended. When a call of \<open>execute\<close> is suspended on \<open>authenticate\<close>, the flag
  \<open>isLoading\<close> is set, and a second call on the same instance returns at once
  \<open>{success: false, error: Login en progreso}\<close>: it does not reach the call of
  \<open>authenticate\<close>, whatever the collaborators are, and leaves the instance as it was.
  A \<open>logout\<close> in between leaves the flag set, and the second call is rejected in every
  state of the instance in which the flag is set.
\<close>

theorem overlapping_execute_rejected:
  "LoginUserUseCase_execute_enter this email password = (AwaitAuthenticate e p, pending) \<Longrightarrow>
     isLoading pending \<and>
     LoginUserUseCase_execute_enter pending email' password'
       = (Return (LoginFailure (js ''Login en progreso'')), pending) \<and>
     LoginUserUseCase_execute AS SS pending email' password'
       = (Inr (LoginFailure (js ''Login en progreso'')), pending) \<and>
     isLoading (snd (LoginUserUseCase_logout SS pending)) \<and>
     (\<forall>later. isLoading later \<longrightarrow>
        LoginUserUseCase_execute_enter later email' password'
          = (Return (LoginFailure (js ''Login en progreso'')), later))"
  using enter_pending_isLoading [of this email password e p pending]
  by (simp add: enter_while_loading LoginUserUseCase_execute_def msg_in_progress_def
      logout_isLoading)

theorem overlapping_execute_rejected_witness:
  "LoginUserUseCase_execute_enter (new_LoginUserUseCase new_AuthServiceImpl ())
       (js ''test@test.com'') (js ''123456'')
     = (AwaitAuthenticate (js ''test@test.com'') (js ''123456''),
        \<lparr>authService = new_AuthServiceImpl, sessionService = (), isLoading = True\<rparr>) \<and>
   LoginUserUseCase_execute_enter
       \<lparr>authService = new_AuthServiceImpl, sessionService = (), isLoading = True\<rparr>
       (js ''admin@test.com'') (js ''admin123'')
     = (Return (LoginFailure (js ''Login en progreso'')),
        \<lparr>authService = new_AuthServiceImpl, sessionService = (), isLoading = True\<rparr>)"
proof -
  have first: "LoginUserUseCase_execute_enter (new_LoginUserUseCase new_AuthServiceImpl ())
       (js ''test@test.com'') (js ''123456'')
     = (AwaitAuthenticate (js ''test@test.com'') (js ''123456''),
        \<lparr>authService = new_AuthServiceImpl, sessionService = (), isLoading = True\<rparr>)"
    by (simp add: enter_idle_valid validate_test new_LoginUserUseCase_def)
  from overlapping_execute_rejected [OF first] first show ?thesis by blast
qed

text \<open>
  Claim C4. No exception leaves the use case. \<open>execute\<close> always returns a result, also
  when it resumes from the \<open>await\<close>. When \<open>authenticate\<close> or \<open>startSession\<close> throws, the
  result is \<open>{success: false, error}\<close> with the message of the exception if it is an
  \<open>Error\<close>, and \<open>Error desconocido durante el login\<close> otherwise. \<open>logout\<close> returns
  \<open>{success: false}\<close> when \<open>endSession\<close> throws and \<open>{success: true}\<close> when it returns.
\<close>

theorem no_exception_escapes_use_case:
  "(\<exists>result. fst (LoginUserUseCase_execute AS SS this email password) = Inr result) \<and>
   (\<exists>result. fst (LoginUserUseCase_execute_resume SS this settled) = Inr result) \<and>
   fst (LoginUserUseCase_execute_resume SS this (Inl (ErrorObject m))) = Inr (LoginFailure m) \<and>
   fst (LoginUserUseCase_execute_resume SS this (Inl OtherValue))
     = Inr (LoginFailure (js ''Error desconocido durante el login'')) \<and>
   (\<not> isLoading this \<and> validateInput email password = None \<longrightarrow>
      (fst (authenticate AS (authService this) email password) = Inl (ErrorObject m) \<longrightarrow>
         fst (LoginUserUseCase_execute AS SS this email password) = Inr (LoginFailure m)) \<and>
      (fst (authenticate AS (authService this) email password) = Inl OtherValue \<longrightarrow>
         fst (LoginUserUseCase_execute AS SS this email password)
           = Inr (LoginFailure (js ''Error desconocido durante el login''))) \<and>
      (fst (authenticate AS (authService this) email password) = Inr (AuthSuccess u t) \<longrightarrow>
         (fst (startSession SS (sessionService this) u t) = Inl (ErrorObject m) \<longrightarrow>
            fst (LoginUserUseCase_execute AS SS this email password)
              = Inr (LoginFailure m)) \<and>
         (fst (startSession SS (sessionService this) u t) = Inl OtherValue \<longrightarrow>
            fst (LoginUserUseCase_execute AS SS this email password)
              = Inr (LoginFailure (js ''Error desconocido durante el login''))))) \<and>
   (fst (endSession SS (sessionService this)) = Inl error \<longrightarrow>
      fst (LoginUserUseCase_logout SS this) = Inr \<lparr>success = False\<rparr>) \<and>
   (fst (endSession SS (sessionService this)) = Inr () \<longrightarrow>
      fst (LoginUserUseCase_logout SS this) = Inr \<lparr>success = True\<rparr>)"
proof (intro conjI impI)
  show "\<exists>result. fst (LoginUserUseCase_execute AS SS this email password) = Inr result"
    by (rule execute_returns)
  show "\<exists>result. fst (LoginUserUseCase_execute_resume SS this settled) = Inr result"
    by (rule resume_returns)
  show "fst (LoginUserUseCase_execute_resume SS this (Inl (ErrorObject m))) = Inr (LoginFailure m)"
    by (simp add: resume_rejected catch_message)
  show "fst (LoginUserUseCase_execute_resume SS this (Inl OtherValue))
     = Inr (LoginFailure (js ''Error desconocido durante el login''))"
    by (simp add: resume_rejected catch_message)
next
  assume "\<not> isLoading this \<and> validateInput email password = None"
    and "fst (authenticate AS (authService this) email password) = Inl (ErrorObject m)"
  then show "fst (LoginUserUseCase_execute AS SS this email password) = Inr (LoginFailure m)"
    by (simp add: execute_authenticate_throws catch_message)
next
  assume "\<not> isLoading this \<and> validateInput email password = None"
    and "fst (authenticate AS (authService this) email password) = Inl OtherValue"
  then show "fst (LoginUserUseCase_execute AS SS this email password)
           = Inr (LoginFailure (js ''Error desconocido durante el login''))"
    by (simp add: execute_authenticate_throws catch_message)
next
  assume "\<not> isLoading this \<and> validateInput email password = None"
    and "fst (authenticate AS (authService this) email password) = Inr (AuthSuccess u t)"
    and "fst (startSession SS (sessionService this) u t) = Inl (ErrorObject m)"
  then show "fst (LoginUserUseCase_execute AS SS this email password) = Inr (LoginFailure m)"
    using execute_startSession_throws [of this email password AS u t SS "ErrorObject m"]
    by (simp add: catch_message)
next
  assume "\<not> isLoading this \<and> validateInput email password = None"
    and "fst (authenticate AS (authService this) email password) = Inr (AuthSuccess u t)"
    and "fst (startSession SS (sessionService this) u t) = Inl OtherValue"
  then show "fst (LoginUserUseCase_execute AS SS this email password)
           = Inr (LoginFailure (js ''Error desconocido durante el login''))"
    using execute_startSession_throws [of this email password AS u t SS OtherValue]
    by (simp add: catch_message)
next
  assume "fst (endSession SS (sessionService this)) = Inl error"
  then show "fst (LoginUserUseCase_logout SS this) = Inr \<lparr>success = False\<rparr>"
    by (simp add: logout_result)
next
  assume "fst (endSession SS (sessionService this)) = Inr ()"
  then show "fst (LoginUserUseCase_logout SS this) = Inr \<lparr>success = True\<rparr>"
    by (simp add: logout_result)
qed

theorem no_exception_escapes_use_case_witness:
  "fst (LoginUserUseCase_execute (AuthServiceImpl_impl 500 (js ''k3j9x'')) throwing_session
          (new_LoginUserUseCase new_AuthServiceImpl ()) (js ''test@test.com'') (js ''123456''))
     = Inr (LoginFailure (js ''storage unavailable'')) \<and>
   fst (LoginUserUseCase_execute rejecting_auth throwing_session
          (new_LoginUserUseCase () ()) (js ''test@test.com'') (js ''123456''))
     = Inr (LoginFailure (js ''Error desconocido durante el login'')) \<and>
   fst (LoginUserUseCase_logout throwing_session (new_LoginUserUseCase () ()))
     = Inr \<lparr>success = False\<rparr> \<and>
   fst (LoginUserUseCase_logout (SessionManager_impl example_storage 2000)
          (new_LoginUserUseCase ()
             (new_SessionManager example_storage example_store (Some 1) 1000)))
     = Inr \<lparr>success = True\<rparr>"
proof -
  let ?uc = "new_LoginUserUseCase new_AuthServiceImpl ()"
  let ?AS = "AuthServiceImpl_impl 500 (js ''k3j9x'')"
  have idle: "\<not> isLoading ?uc \<and> validateInput (js ''test@test.com'') (js ''123456'') = None"
    by (simp add: new_LoginUserUseCase_def validate_test)
  have a: "fst (authenticate ?AS (authService ?uc) (js ''test@test.com'') (js ''123456''))
             = Inr (AuthSuccess example_user (js ''token_1_500_k3j9x''))"
    by (simp add: new_LoginUserUseCase_def auth_test)
  have s: "fst (startSession throwing_session (sessionService ?uc) example_user
             (js ''token_1_500_k3j9x'')) = Inl (ErrorObject (js ''storage unavailable''))"
    by (simp add: throwing_session_def)
  from no_exception_escapes_use_case [of ?AS throwing_session ?uc "js ''test@test.com''"
      "js ''123456''" _ "js ''storage unavailable''" example_user "js ''token_1_500_k3j9x''"]
    idle a s
  have 1: "fst (LoginUserUseCase_execute ?AS throwing_session ?uc (js ''test@test.com'')
             (js ''123456'')) = Inr (LoginFailure (js ''storage unavailable''))"
    by blast
  let ?uc2 = "new_LoginUserUseCase () ()"
  have idle2: "\<not> isLoading ?uc2 \<and> validateInput (js ''test@test.com'') (js ''123456'') = None"
    by (simp add: new_LoginUserUseCase_def validate_test)
  have a2: "fst (authenticate rejecting_auth (authService ?uc2) (js ''test@test.com'')
             (js ''123456'')) = Inl OtherValue"
    by (simp add: rejecting_auth_def)
  from no_exception_escapes_use_case [of rejecting_auth throwing_session ?uc2
      "js ''test@test.com''" "js ''123456''"] idle2 a2
  have 2: "fst (LoginUserUseCase_execute rejecting_auth throwing_session ?uc2
             (js ''test@test.com'') (js ''123456''))
           = Inr (LoginFailure (js ''Error desconocido durante el login''))"
    by blast
  have e3: "fst (endSession throwing_session (sessionService ?uc2)) = Inl OtherValue"
    by (simp add: throwing_session_def)
  from no_exception_escapes_use_case [of rejecting_auth throwing_session ?uc2 _ _ _ _ _ _
      OtherValue] e3
  have 3: "fst (LoginUserUseCase_logout throwing_session ?uc2) = Inr \<lparr>success = False\<rparr>"
    by blast
  let ?uc4 = "new_LoginUserUseCase ()
             (new_SessionManager example_storage example_store (Some 1) 1000)"
  have e4: "fst (endSession (SessionManager_impl example_storage 2000) (sessionService ?uc4))
              = Inr ()"
    by (simp add: SessionManager_impl_def)
  from no_exception_escapes_use_case [of rejecting_auth "SessionManager_impl example_storage 2000"
      ?uc4] e4
  have 4: "fst (LoginUserUseCase_logout (SessionManager_impl example_storage 2000) ?uc4)
             = Inr \<lparr>success = True\<rparr>"
    by blast
  from 1 2 3 4 show ?thesis by blast
qed

text \<open>
  Claim C9. A call of \<open>execute\<close> entered with \<open>isLoading\<close> false leaves it false when it
  resolves: when it returns before the \<open>await\<close> (invalid input), and when it resumes
  from the \<open>await\<close>, whatever the authenticator settled with and whether or not
  \<open>startSession\<close> throws. \<open>getAuthState\<close> then reports \<open>isLoading\<close> false, and the next
  call with valid input reaches the authenticator.
\<close>

theorem execute_resets_isLoading:
  "\<not> isLoading this \<Longrightarrow>
     \<not> isLoading (snd (LoginUserUseCase_execute AS SS this email password)) \<and>
     \<not> state_isLoading
         (LoginUserUseCase_getAuthState SS' (snd (LoginUserUseCase_execute AS SS this email password))) \<and>
     (\<forall>result this'. LoginUserUseCase_execute_enter this email password = (Return result, this')
        \<longrightarrow> \<not> isLoading this') \<and>
     (\<forall>suspended settled.
        \<not> isLoading (snd (LoginUserUseCase_execute_resume SS suspended settled))) \<and>
     (\<forall>email' password'. validateInput email' password' = None \<longrightarrow>
        fst (LoginUserUseCase_execute_enter
               (snd (LoginUserUseCase_execute AS SS this email password)) email' password')
          = AwaitAuthenticate email' password')"
  by (auto simp: execute_isLoading resume_isLoading LoginUserUseCase_getAuthState_def Let_def
      enter_idle_valid dest: enter_return_isLoading)

theorem execute_resets_isLoading_witness:
  "LoginUserUseCase_execute (AuthServiceImpl_impl 500 (js ''k3j9x'')) throwing_session
       (new_LoginUserUseCase new_AuthServiceImpl ()) (js ''  '') (js ''123456'')
     = (Inr (LoginFailure msg_email_required), new_LoginUserUseCase new_AuthServiceImpl ()) \<and>
   \<not> isLoading (snd (LoginUserUseCase_execute (AuthServiceImpl_impl 500 (js ''k3j9x''))
       throwing_session (new_LoginUserUseCase new_AuthServiceImpl ())
       (js ''bad@test.com'') (js ''wrong''))) \<and>
   \<not> isLoading (snd (LoginUserUseCase_execute (AuthServiceImpl_impl 500 (js ''k3j9x''))
       throwing_session (new_LoginUserUseCase new_AuthServiceImpl ())
       (js ''test@test.com'') (js ''123456''))) \<and>
   \<not> isLoading (snd (LoginUserUseCase_execute (AuthServiceImpl_impl 500 (js ''k3j9x''))
       (SessionManager_impl example_storage 2000)
       (new_LoginUserUseCase new_AuthServiceImpl
          (new_SessionManager example_storage example_store (Some 1) 1000))
       (js ''test@test.com'') (js ''123456''))) \<and>
   \<not> state_isLoading (LoginUserUseCase_getAuthState (SessionManager_impl example_storage 2500)
       (snd (LoginUserUseCase_execute (AuthServiceImpl_impl 500 (js ''k3j9x''))
         (SessionManager_impl example_storage 2000)
         (new_LoginUserUseCase new_AuthServiceImpl
            (new_SessionManager example_storage example_store (Some 1) 1000))
         (js ''test@test.com'') (js ''123456''))))"
proof -
  let ?AS = "AuthServiceImpl_impl 500 (js ''k3j9x'')"
  let ?uc = "new_LoginUserUseCase new_AuthServiceImpl ()"
  let ?uc' = "new_LoginUserUseCase new_AuthServiceImpl
          (new_SessionManager example_storage example_store (Some 1) 1000)"
  have i: "\<not> isLoading ?uc" and i': "\<not> isLoading ?uc'"
    by (simp_all add: new_LoginUserUseCase_def)
  have 1: "LoginUserUseCase_execute ?AS throwing_session ?uc (js ''  '') (js ''123456'')
     = (Inr (LoginFailure msg_email_required), ?uc)"
    by (simp add: LoginUserUseCase_execute_def enter_idle_invalid [OF i validate_blank])
       (simp add: new_LoginUserUseCase_def)
  from execute_resets_isLoading [OF i, of ?AS throwing_session "js ''bad@test.com''"
      "js ''wrong''"]
  have 2: "\<not> isLoading (snd (LoginUserUseCase_execute ?AS throwing_session ?uc
       (js ''bad@test.com'') (js ''wrong'')))" by blast
  from execute_resets_isLoading [OF i, of ?AS throwing_session "js ''test@test.com''"
      "js ''123456''"]
  have 3: "\<not> isLoading (snd (LoginUserUseCase_execute ?AS throwing_session ?uc
       (js ''test@test.com'') (js ''123456'')))" by blast
  from execute_resets_isLoading [OF i', of ?AS "SessionManager_impl example_storage 2000"
      "js ''test@test.com''" "js ''123456''" "SessionManager_impl example_storage 2500"]
  have 4: "\<not> isLoading (snd (LoginUserUseCase_execute ?AS
       (SessionManager_impl example_storage 2000) ?uc' (js ''test@test.com'') (js ''123456'')))"
    and 5: "\<not> state_isLoading (LoginUserUseCase_getAuthState
       (SessionManager_impl example_storage 2500)
       (snd (LoginUserUseCase_execute ?AS (SessionManager_impl example_storage 2000) ?uc'
          (js ''test@test.com'') (js ''123456''))))"
    by blast+
  from 1 2 3 4 5 show ?thesis by blast
qed

end
